theory Spec2Isabelle
  imports Complex_Main
begin

section \<open>CanSat terrain scanner and orientation estimator\<close>

text \<open>
  The development embeds the two Arduino sketches
  \<^verbatim>\<open>terrain_scanner.ino\<close> (Arduino Uno, five HC-SR04 channels) and
  \<^verbatim>\<open>cansat_mega.ino\<close> (Arduino Mega, six channels, MPU6050 and QMC5883L).
  Both sketches use the same function names, so the definitions taken from
  \<^verbatim>\<open>terrain_scanner.ino\<close> carry the prefix \<open>scanner_\<close> and those taken from
  \<^verbatim>\<open>cansat_mega.ino\<close> the prefix \<open>mega_\<close>; code that is textually the same in
  both sketches is embedded once.

  Conventions of the embedding:
  \<^item> a C \<^verbatim>\<open>float\<close> is a \<^typ>\<open>real\<close>: arithmetic is exact, rounding, infinities
    and NaN are not represented. The one exception is the variance, whose
    value depends on them: its computation is embedded a second time in
    binary32 arithmetic;
  \<^item> a C \<^verbatim>\<open>int\<close>, \<^verbatim>\<open>long\<close> or \<^verbatim>\<open>int16_t\<close> is an \<^typ>\<open>int\<close>; the values that
    occur (at most six channels, pulse widths below the 30000 microsecond
    timeout, raw 16 bit samples) are far from any overflow;
  \<^item> an Arduino \<^verbatim>\<open>String\<close> is a \<^typ>\<open>string\<close>;
  \<^item> the array \<^verbatim>\<open>float terrain[NUM_SENSORS]\<close> is a \<^typ>\<open>real list\<close>;
  \<^item> global variables are fields of a record that every function takes and
    returns updated.
\<close>

subsection \<open>One ultrasonic channel\<close>

text \<open>
  \<^verbatim>\<open>readSingleUltrasonic\<close> pulses the shared trigger line and then calls
  \<^verbatim>\<open>pulseIn(echoPin, HIGH, 30000)\<close>. The argument \<open>duration\<close> is the value
  of the C variable \<^verbatim>\<open>long duration\<close>, that is what \<^verbatim>\<open>pulseIn\<close> returned:
  the width of the echo pulse in microseconds, or 0 when the timeout elapsed.
\<close>

definition readSingleUltrasonic :: "int \<Rightarrow> real" where
  "readSingleUltrasonic duration =
     (if duration = 0 then - 1
      else real_of_int duration * 0.0343 / 2.0)"

subsection \<open>The sweep loop shared by both sketches\<close>

text \<open>The local variables of \<^verbatim>\<open>readTerrainArray\<close>.\<close>

record scan_locals =
  sum_d :: real
  sumSq :: real
  validCount :: int
  minDist :: real
  maxDist :: real

definition scan_init :: scan_locals where
  "scan_init = \<lparr>sum_d = 0, sumSq = 0, validCount = 0, minDist = 9999, maxDist = 0\<rparr>"

text \<open>
  The part of the loop body after \<^verbatim>\<open>terrain[i] = dist\<close>: a reading is
  accumulated only when \<^verbatim>\<open>dist > 0\<close>.
\<close>

definition scan_step :: "real \<Rightarrow> scan_locals \<Rightarrow> scan_locals" where
  "scan_step dist' l =
     (if dist' > 0 then
        let l1 = l\<lparr>sum_d := sum_d l + dist',
                   sumSq := sumSq l + dist' * dist',
                   validCount := validCount l + 1\<rparr>;
            l2 = (if dist' < minDist l1 then l1\<lparr>minDist := dist'\<rparr> else l1);
            l3 = (if dist' > maxDist l2 then l2\<lparr>maxDist := dist'\<rparr> else l2)
        in l3
      else l)"

text \<open>
  The \<^verbatim>\<open>for\<close> loop over the channels \<open>0, \<dots>, NUM_SENSORS - 1\<close>. Its argument
  is the sweep: the list of the values that the successive calls
  \<^verbatim>\<open>readSingleUltrasonic(echoPins[i])\<close> returned, in index order.
\<close>

fun scan_loop :: "real list \<Rightarrow> scan_locals \<Rightarrow> scan_locals" where
  "scan_loop [] l = l"
| "scan_loop (dist' # rest) l = scan_loop rest (scan_step dist' l)"

text \<open>
  The variance computed after the loop, the same statement in both sketches,
  in exact arithmetic. Division of reals is total, so this definition says
  nothing about NaN or rounding; it serves where two sweeps are compared. The
  value that the boards compute is \<open>scan_variance32\<close> below.
\<close>

definition scan_variance :: "scan_locals \<Rightarrow> real" where
  "scan_variance l =
     (if validCount l > 1 then
        let mean = sum_d l / real_of_int (validCount l)
        in (sumSq l / real_of_int (validCount l)) - (mean * mean)
      else 0)"

subsection \<open>Global data\<close>

text \<open>
  The terrain globals of \<^verbatim>\<open>terrain_scanner.ino\<close>; \<^verbatim>\<open>cansat_mega.ino\<close> holds
  the same five fields inside \<^verbatim>\<open>struct SensorData\<close>, next to the orientation
  fields.
\<close>

record terrain_data =
  terrain :: "real list"
  terrainMin :: real
  terrainMax :: real
  terrainVariance :: real
  terrainStatus :: string

record SensorData = terrain_data +
  accelX :: real
  accelY :: real
  accelZ :: real
  roll :: real
  pitch :: real
  magX :: real
  magY :: real
  magZ :: real
  heading :: real

subsection \<open>terrain\_scanner.ino\<close>

definition scanner_NUM_SENSORS :: int where
  "scanner_NUM_SENSORS = 5"

definition scanner_analyzeTerrain ::
  "int \<Rightarrow> 'a terrain_data_scheme \<Rightarrow> 'a terrain_data_scheme" where
  "scanner_analyzeTerrain validCount' g =
     (let range = terrainMax g - terrainMin g;
          outOfRange = scanner_NUM_SENSORS - validCount'
      in if outOfRange \<ge> 3 then g\<lparr>terrainStatus := ''NO_GROUND''\<rparr>
         else if range > 50 then g\<lparr>terrainStatus := ''HAZARD!''\<rparr>
         else if range > 20 then g\<lparr>terrainStatus := ''UNEVEN''\<rparr>
         else if validCount' > 0 then g\<lparr>terrainStatus := ''FLAT-SAFE''\<rparr>
         else g\<lparr>terrainStatus := ''NO_DATA''\<rparr>)"

text \<open>
  \<^verbatim>\<open>readTerrainArray\<close> from the point where every channel has been read:
  \<open>sweep\<close> is the list of the five readings.
\<close>

definition scanner_reduce ::
  "real list \<Rightarrow> 'a terrain_data_scheme \<Rightarrow> 'a terrain_data_scheme" where
  "scanner_reduce sweep g =
     (let l = scan_loop sweep scan_init;
          g1 = g\<lparr>terrain := sweep\<rparr>;
          g2 = g1\<lparr>terrainMin := (if validCount l > 0 then minDist l else 0)\<rparr>;
          g3 = g2\<lparr>terrainMax := (if validCount l > 0 then maxDist l else 0)\<rparr>;
          g4 = g3\<lparr>terrainVariance := scan_variance l\<rparr>
      in scanner_analyzeTerrain (validCount l) g4)"

text \<open>
  \<^verbatim>\<open>readTerrainArray\<close> itself: \<open>durations\<close> lists what \<^verbatim>\<open>pulseIn\<close> returned
  for the channels \<open>0, \<dots>, 4\<close>.
\<close>

definition scanner_readTerrainArray ::
  "int list \<Rightarrow> 'a terrain_data_scheme \<Rightarrow> 'a terrain_data_scheme" where
  "scanner_readTerrainArray durations g =
     scanner_reduce (map readSingleUltrasonic durations) g"

subsection \<open>cansat\_mega.ino\<close>

definition mega_NUM_SENSORS :: int where
  "mega_NUM_SENSORS = 6"

text \<open>The counting loop of \<^verbatim>\<open>analyzeTerrain\<close> over \<^verbatim>\<open>telemetry.terrain\<close>.\<close>

fun mega_count_outOfRange :: "real list \<Rightarrow> int \<Rightarrow> int" where
  "mega_count_outOfRange [] outOfRange = outOfRange"
| "mega_count_outOfRange (d # rest) outOfRange =
     mega_count_outOfRange rest (if d < 0 then outOfRange + 1 else outOfRange)"

definition mega_analyzeTerrain :: "SensorData \<Rightarrow> SensorData" where
  "mega_analyzeTerrain t =
     (let range = terrainMax t - terrainMin t;
          outOfRange = mega_count_outOfRange (terrain t) 0
      in if outOfRange \<ge> 3 then t\<lparr>terrainStatus := ''NO GROUND''\<rparr>
         else if range > 50 then t\<lparr>terrainStatus := ''HAZARD!''\<rparr>
         else if range > 20 then t\<lparr>terrainStatus := ''UNEVEN''\<rparr>
         else t\<lparr>terrainStatus := ''FLAT-SAFE''\<rparr>)"

definition mega_reduce :: "real list \<Rightarrow> SensorData \<Rightarrow> SensorData" where
  "mega_reduce sweep t =
     (let l = scan_loop sweep scan_init;
          t1 = t\<lparr>terrain := sweep\<rparr>;
          t2 = t1\<lparr>terrainMin := minDist l\<rparr>;
          t3 = t2\<lparr>terrainMax := maxDist l\<rparr>;
          t4 = t3\<lparr>terrainVariance := scan_variance l\<rparr>
      in mega_analyzeTerrain t4)"

definition mega_readTerrainArray :: "int list \<Rightarrow> SensorData \<Rightarrow> SensorData" where
  "mega_readTerrainArray durations t =
     mega_reduce (map readSingleUltrasonic durations) t"

subsection \<open>Classifications\<close>

text \<open>
  The five terrain classifications, and the status strings of the two
  sketches read as classifications (\<^verbatim>\<open>cansat_mega.ino\<close> writes
  \<^verbatim>\<open>"NO GROUND"\<close> with a blank). \<^verbatim>\<open>"INIT"\<close>, the value before the first
  sweep, and any other string are no classification.
\<close>

datatype TerrainClassification = FLAT_SAFE | UNEVEN | HAZARD | NO_GROUND | NO_DATA

definition classification_of :: "string \<Rightarrow> TerrainClassification option" where
  "classification_of s =
     (if s = ''FLAT-SAFE'' then Some FLAT_SAFE
      else if s = ''UNEVEN'' then Some UNEVEN
      else if s = ''HAZARD!'' then Some HAZARD
      else if s = ''NO_GROUND'' \<or> s = ''NO GROUND'' then Some NO_GROUND
      else if s = ''NO_DATA'' then Some NO_DATA
      else None)"

text \<open>
  The quantities of the specification, defined on the sweep itself: a sample
  is valid when it is positive and invalid otherwise, and the minimum and the
  maximum range over the valid samples only.
\<close>

definition valid_samples :: "real list \<Rightarrow> real list" where
  "valid_samples sweep = filter (\<lambda>d. d > 0) sweep"

definition invalid_samples :: "real list \<Rightarrow> real list" where
  "invalid_samples sweep = filter (\<lambda>d. d \<le> 0) sweep"

definition spec_classify :: "real list \<Rightarrow> TerrainClassification" where
  "spec_classify sweep =
     (let v = valid_samples sweep
      in if length (invalid_samples sweep) \<ge> 3 then NO_GROUND
         else if Max (set v) - Min (set v) > 50 then HAZARD
         else if Max (set v) - Min (set v) > 20 then UNEVEN
         else if length v > 0 then FLAT_SAFE
         else NO_DATA)"

text \<open>
  The globals of \<^verbatim>\<open>terrain_scanner.ino\<close> and the \<^verbatim>\<open>telemetry\<close> structure of
  \<^verbatim>\<open>cansat_mega.ino\<close> when \<^verbatim>\<open>setup\<close> returns: zero-initialised statics,
  \<^verbatim>\<open>terrain[i] = 0\<close> and the status \<^verbatim>\<open>"INIT"\<close>.
\<close>

definition scanner_initial :: terrain_data where
  "scanner_initial =
     \<lparr>terrain = [0, 0, 0, 0, 0], terrainMin = 0, terrainMax = 0,
      terrainVariance = 0, terrainStatus = ''INIT''\<rparr>"

definition mega_initial :: SensorData where
  "mega_initial =
     \<lparr>terrain = [0, 0, 0, 0, 0, 0], terrainMin = 0, terrainMax = 0,
      terrainVariance = 0, terrainStatus = ''INIT'',
      accelX = 0, accelY = 0, accelZ = 0, roll = 0, pitch = 0,
      magX = 0, magY = 0, magZ = 0, heading = 0\<rparr>"

subsection \<open>Orientation\<close>

text \<open>
  The C library function \<^verbatim>\<open>atan2(y, x)\<close> is not code of the sketches. It is
  taken as the mathematical function: the angle of the point \<open>(x, y)\<close> in
  radians, in the interval from \<open>-\<pi>\<close> (excluded) to \<open>\<pi>\<close> (included),
  and 0 at the origin, as the C library returns there.
\<close>

definition atan2 :: "real \<Rightarrow> real \<Rightarrow> real" where
  "atan2 y x =
     (if x > 0 then arctan (y / x)
      else if x < 0 then (if y \<ge> 0 then arctan (y / x) + pi else arctan (y / x) - pi)
      else if y > 0 then pi / 2
      else if y < 0 then - (pi / 2)
      else 0)"

text \<open>
  \<^verbatim>\<open>readMPU6050\<close>, textually the same in \<^verbatim>\<open>cansat_mega.ino\<close> and in the
  ESP8266 firmware apart from the bus transaction. The arguments are the
  values of the \<^verbatim>\<open>int16_t\<close> variables \<^verbatim>\<open>rawX\<close>, \<^verbatim>\<open>rawY\<close>, \<^verbatim>\<open>rawZ\<close> that
  the bus transaction delivered.
\<close>

definition readMPU6050 :: "int \<Rightarrow> int \<Rightarrow> int \<Rightarrow> SensorData \<Rightarrow> SensorData" where
  "readMPU6050 rawX rawY rawZ t =
     (let t1 = t\<lparr>accelX := real_of_int rawX / 16384.0\<rparr>;
          t2 = t1\<lparr>accelY := real_of_int rawY / 16384.0\<rparr>;
          t3 = t2\<lparr>accelZ := real_of_int rawZ / 16384.0\<rparr>;
          t4 = t3\<lparr>roll := atan2 (accelY t3) (accelZ t3) * 180.0 / pi\<rparr>
      in t4\<lparr>pitch := atan2 (- accelX t4)
                        (sqrt (accelY t4 * accelY t4 + accelZ t4 * accelZ t4))
                      * 180.0 / pi\<rparr>)"

text \<open>\<^verbatim>\<open>readQMC5883L\<close> of \<^verbatim>\<open>cansat_mega.ino\<close>, with a local \<^verbatim>\<open>heading\<close>.\<close>

definition mega_readQMC5883L :: "int \<Rightarrow> int \<Rightarrow> int \<Rightarrow> SensorData \<Rightarrow> SensorData" where
  "mega_readQMC5883L rawX rawY rawZ t =
     (let t1 = t\<lparr>magX := real_of_int rawX\<rparr>;
          t2 = t1\<lparr>magY := real_of_int rawY\<rparr>;
          t3 = t2\<lparr>magZ := real_of_int rawZ\<rparr>;
          heading0 = atan2 (real_of_int rawY) (real_of_int rawX) * 180.0 / pi;
          heading1 = (if heading0 < 0 then heading0 + 360 else heading0)
      in t3\<lparr>heading := heading1\<rparr>)"

text \<open>
  \<^verbatim>\<open>readQMC5883L\<close> of the ESP8266 firmware: it updates the structure only
  when the bus delivered all six bytes (\<open>available\<close> is what
  \<^verbatim>\<open>Wire.available()\<close> returned), and normalises the field in place.
\<close>

definition esp_readQMC5883L ::
  "int \<Rightarrow> int \<Rightarrow> int \<Rightarrow> int \<Rightarrow> SensorData \<Rightarrow> SensorData" where
  "esp_readQMC5883L available x y z t =
     (if available = 6 then
        let t1 = t\<lparr>magX := real_of_int x\<rparr>;
            t2 = t1\<lparr>magY := real_of_int y\<rparr>;
            t3 = t2\<lparr>magZ := real_of_int z\<rparr>;
            t4 = t3\<lparr>heading := atan2 (real_of_int y) (real_of_int x) * 180.0 / pi\<rparr>
        in if heading t4 < 0 then t4\<lparr>heading := heading t4 + 360\<rparr> else t4
      else t)"

subsection \<open>The driver with its hardware calls\<close>

text \<open>
  For the order and the timing of the measurements the Arduino calls of the
  driver are made explicit. The world is a simulated clock in microseconds
  and the log of the observable events, each with the time at which it
  happened. \<^verbatim>\<open>delayMicroseconds\<close> and \<^verbatim>\<open>delay\<close> advance the clock by
  their argument, \<^verbatim>\<open>digitalWrite\<close> logs the write, and
  \<^verbatim>\<open>pulseIn(pin, HIGH, 30000)\<close> blocks for a time and returns a pulse width,
  both given by the environment \<open>echo\<close> for that pin, and logs its return.
  Every other statement takes no time.
\<close>

datatype hw_event = DigitalWrite int bool | PulseInReturn int

record hw_world =
  micros :: nat
  hw_log :: "(nat \<times> hw_event) list"

definition digitalWrite :: "int \<Rightarrow> bool \<Rightarrow> hw_world \<Rightarrow> hw_world" where
  "digitalWrite pin val w = w\<lparr>hw_log := hw_log w @ [(micros w, DigitalWrite pin val)]\<rparr>"

definition delayMicroseconds :: "nat \<Rightarrow> hw_world \<Rightarrow> hw_world" where
  "delayMicroseconds us w = w\<lparr>micros := micros w + us\<rparr>"

definition delay :: "nat \<Rightarrow> hw_world \<Rightarrow> hw_world" where
  "delay ms w = w\<lparr>micros := micros w + 1000 * ms\<rparr>"

definition pulseIn :: "(int \<Rightarrow> int \<times> nat) \<Rightarrow> int \<Rightarrow> hw_world \<Rightarrow> int \<times> hw_world" where
  "pulseIn echo pin w =
     (let (duration, elapsed) = echo pin;
          w1 = w\<lparr>micros := micros w + elapsed\<rparr>
      in (duration, w1\<lparr>hw_log := hw_log w1 @ [(micros w1, PulseInReturn pin)]\<rparr>))"

text \<open>
  \<^verbatim>\<open>readSingleUltrasonic(echoPin)\<close> with its trigger pulse; \<open>LOW\<close> is
  \<^const>\<open>False\<close> and \<open>HIGH\<close> is \<^const>\<open>True\<close>. The conversion of the pulse width
  is \<^const>\<open>readSingleUltrasonic\<close>.
\<close>

definition hw_readSingleUltrasonic ::
  "int \<Rightarrow> (int \<Rightarrow> int \<times> nat) \<Rightarrow> int \<Rightarrow> hw_world \<Rightarrow> real \<times> hw_world" where
  "hw_readSingleUltrasonic TRIG_PIN echo echoPin w =
     (let w1 = digitalWrite TRIG_PIN False w;
          w2 = delayMicroseconds 2 w1;
          w3 = digitalWrite TRIG_PIN True w2;
          w4 = delayMicroseconds 10 w3;
          w5 = digitalWrite TRIG_PIN False w4;
          (duration, w6) = pulseIn echo echoPin w5
      in (readSingleUltrasonic duration, w6))"

text \<open>
  The loop of \<^verbatim>\<open>readTerrainArray\<close> over \<^verbatim>\<open>echoPins[0]\<close>, \<open>\<dots>\<close>,
  \<^verbatim>\<open>echoPins[NUM_SENSORS - 1]\<close>: one measurement, then \<^verbatim>\<open>delay(30)\<close>. It
  returns the sweep and the world after it.
\<close>

fun hw_sweep ::
  "int \<Rightarrow> (int \<Rightarrow> int \<times> nat) \<Rightarrow> int list \<Rightarrow> hw_world \<Rightarrow> real list \<times> hw_world" where
  "hw_sweep TRIG_PIN echo [] w = ([], w)"
| "hw_sweep TRIG_PIN echo (echoPin # pins) w =
     (let (dist', w1) = hw_readSingleUltrasonic TRIG_PIN echo echoPin w;
          w2 = delay 30 w1;
          (rest, w3) = hw_sweep TRIG_PIN echo pins w2
      in (dist' # rest, w3))"

definition scanner_TRIG_PIN :: int where
  "scanner_TRIG_PIN = 2"

definition scanner_echoPins :: "int list" where
  "scanner_echoPins = [3, 4, 5, 6, 7]"

definition mega_TRIG_PIN :: int where
  "mega_TRIG_PIN = 22"

definition mega_echoPins :: "int list" where
  "mega_echoPins = [23, 25, 27, 29, 31, 33]"

text \<open>
  Reading the log: the times at which the trigger line was driven high, and
  the times and pins of the returns of \<^verbatim>\<open>pulseIn\<close>.
\<close>

fun triggered :: "int \<Rightarrow> (nat \<times> hw_event) list \<Rightarrow> nat list" where
  "triggered trig [] = []"
| "triggered trig ((tm, DigitalWrite pin val) # lg) =
     (if pin = trig \<and> val then tm # triggered trig lg else triggered trig lg)"
| "triggered trig ((tm, PulseInReturn pin) # lg) = triggered trig lg"

fun measured :: "(nat \<times> hw_event) list \<Rightarrow> (nat \<times> int) list" where
  "measured [] = []"
| "measured ((tm, DigitalWrite pin val) # lg) = measured lg"
| "measured ((tm, PulseInReturn pin) # lg) = (tm, pin) # measured lg"

text \<open>
  The times of a sweep that starts at the time \<open>c\<close>, channel by channel: when
  the trigger goes high and when \<^verbatim>\<open>pulseIn\<close> returns. It is used to describe
  the log of \<^const>\<open>hw_sweep\<close>.
\<close>

fun schedule :: "(int \<Rightarrow> int \<times> nat) \<Rightarrow> int list \<Rightarrow> nat \<Rightarrow> (nat \<times> nat) list" where
  "schedule echo [] c = []"
| "schedule echo (pin # pins) c =
     (c + 2, c + 12 + snd (echo pin))
       # schedule echo pins (c + 12 + snd (echo pin) + 30000)"

text \<open>An environment for examples: one echo, one timeout, then echoes.\<close>

definition example_echo :: "int \<Rightarrow> int \<times> nat" where
  "example_echo pin =
     (if pin = 3 then (583, 1200)
      else if pin = 4 then (0, 30000)
      else (1000, 1500))"

text \<open>
  \<^verbatim>\<open>readTerrainArray\<close> of each sketch with its hardware calls: the sweep loop
  over the sketch's pins, then the reduction of the sweep.
\<close>

definition scanner_readTerrainArray_hw ::
  "(int \<Rightarrow> int \<times> nat) \<Rightarrow> hw_world \<Rightarrow> 'a terrain_data_scheme
     \<Rightarrow> 'a terrain_data_scheme \<times> hw_world" where
  "scanner_readTerrainArray_hw echo w g =
     (let (sweep, w1) = hw_sweep scanner_TRIG_PIN echo scanner_echoPins w
      in (scanner_reduce sweep g, w1))"

definition mega_readTerrainArray_hw ::
  "(int \<Rightarrow> int \<times> nat) \<Rightarrow> hw_world \<Rightarrow> SensorData \<Rightarrow> SensorData \<times> hw_world" where
  "mega_readTerrainArray_hw echo w t =
     (let (sweep, w1) = hw_sweep mega_TRIG_PIN echo mega_echoPins w
      in (mega_reduce sweep t, w1))"

subsection \<open>The variance in binary32 arithmetic\<close>

text \<open>
  On the AVR boards \<^verbatim>\<open>float\<close> and \<^verbatim>\<open>double\<close> are both IEEE 754 binary32.
  A binary32 value is a finite number, an infinity or NaN; the sign of zero is
  not represented. The arithmetic of the compiler's library is not code of
  the sketches; it is taken as IEEE 754 prescribes: the exact result rounded
  to the nearest binary32 number, ties to the even significand, with gradual
  underflow and overflow to infinity.
\<close>

datatype f32 = Num real | PInf | NInf | NaN

definition round_half_even :: "real \<Rightarrow> int" where
  "round_half_even q =
     (let f = \<lfloor>q\<rfloor> in
      if q - of_int f < 1 / 2 then f
      else if q - of_int f > 1 / 2 then f + 1
      else if even f then f else f + 1)"

definition ulp_exponent :: "real \<Rightarrow> int" where
  "ulp_exponent x = max \<lfloor>log 2 \<bar>x\<bar>\<rfloor> (- 126) - 23"

definition round32 :: "real \<Rightarrow> real" where
  "round32 x =
     (if x = 0 then 0
      else of_int (round_half_even (x / 2 powi ulp_exponent x)) * 2 powi ulp_exponent x)"

definition f32_max :: real where
  "f32_max = (2 ^ 24 - 1) * 2 ^ 104"

definition rnd :: "real \<Rightarrow> f32" where
  "rnd x =
     (let y = round32 x in
      if \<bar>y\<bar> > f32_max then (if x > 0 then PInf else NInf) else Num y)"

text \<open>The operations on binary32 values, with the special cases of IEEE 754.\<close>

fun f32_neg :: "f32 \<Rightarrow> f32" where
  "f32_neg (Num x) = Num (- x)"
| "f32_neg PInf = NInf"
| "f32_neg NInf = PInf"
| "f32_neg NaN = NaN"

fun fadd :: "f32 \<Rightarrow> f32 \<Rightarrow> f32" where
  "fadd (Num x) (Num y) = rnd (x + y)"
| "fadd NaN b = NaN"
| "fadd a NaN = NaN"
| "fadd PInf NInf = NaN"
| "fadd NInf PInf = NaN"
| "fadd PInf b = PInf"
| "fadd a PInf = PInf"
| "fadd NInf b = NInf"
| "fadd a NInf = NInf"

definition fsub :: "f32 \<Rightarrow> f32 \<Rightarrow> f32" where
  "fsub a b = fadd a (f32_neg b)"

fun fmul :: "f32 \<Rightarrow> f32 \<Rightarrow> f32" where
  "fmul (Num x) (Num y) = rnd (x * y)"
| "fmul NaN b = NaN"
| "fmul a NaN = NaN"
| "fmul (Num x) PInf = (if x = 0 then NaN else if x > 0 then PInf else NInf)"
| "fmul (Num x) NInf = (if x = 0 then NaN else if x > 0 then NInf else PInf)"
| "fmul PInf (Num y) = (if y = 0 then NaN else if y > 0 then PInf else NInf)"
| "fmul NInf (Num y) = (if y = 0 then NaN else if y > 0 then NInf else PInf)"
| "fmul PInf PInf = PInf"
| "fmul NInf NInf = PInf"
| "fmul PInf NInf = NInf"
| "fmul NInf PInf = NInf"

fun fdiv :: "f32 \<Rightarrow> f32 \<Rightarrow> f32" where
  "fdiv (Num x) (Num y) =
     (if y = 0 then (if x = 0 then NaN else if x > 0 then PInf else NInf)
      else rnd (x / y))"
| "fdiv NaN b = NaN"
| "fdiv a NaN = NaN"
| "fdiv (Num x) PInf = Num 0"
| "fdiv (Num x) NInf = Num 0"
| "fdiv PInf (Num y) = (if y \<ge> 0 then PInf else NInf)"
| "fdiv NInf (Num y) = (if y \<ge> 0 then NInf else PInf)"
| "fdiv a b = NaN"

fun f32_gt :: "f32 \<Rightarrow> f32 \<Rightarrow> bool" where
  "f32_gt (Num x) (Num y) = (x > y)"
| "f32_gt NaN b = False"
| "f32_gt a NaN = False"
| "f32_gt PInf PInf = False"
| "f32_gt PInf b = True"
| "f32_gt a PInf = False"
| "f32_gt NInf b = False"
| "f32_gt a NInf = True"

definition f32_of_int :: "int \<Rightarrow> f32" where
  "f32_of_int n = rnd (real_of_int n)"

text \<open>
  \<^verbatim>\<open>readSingleUltrasonic\<close>, the locals, the loop and the variance of
  \<^verbatim>\<open>readTerrainArray\<close> once more, statement by statement, on binary32
  values. The literals \<open>-1\<close>, \<open>0\<close>, \<open>2.0\<close> and \<open>9999\<close> are binary32
  numbers; \<open>0.0343\<close> and the integers \<^verbatim>\<open>duration\<close> and \<^verbatim>\<open>validCount\<close>
  are converted by rounding.
\<close>

definition readSingleUltrasonic32 :: "int \<Rightarrow> f32" where
  "readSingleUltrasonic32 duration =
     (if duration = 0 then Num (- 1)
      else fdiv (fmul (f32_of_int duration) (rnd 0.0343)) (Num 2.0))"

record scan_locals32 =
  sum32 :: f32
  sumSq32 :: f32
  validCount32 :: int
  minDist32 :: f32
  maxDist32 :: f32

definition scan_init32 :: scan_locals32 where
  "scan_init32 =
     \<lparr>sum32 = Num 0, sumSq32 = Num 0, validCount32 = 0,
      minDist32 = Num 9999, maxDist32 = Num 0\<rparr>"

definition scan_step32 :: "f32 \<Rightarrow> scan_locals32 \<Rightarrow> scan_locals32" where
  "scan_step32 dist' l =
     (if f32_gt dist' (Num 0) then
        let l1 = l\<lparr>sum32 := fadd (sum32 l) dist',
                   sumSq32 := fadd (sumSq32 l) (fmul dist' dist'),
                   validCount32 := validCount32 l + 1\<rparr>;
            l2 = (if f32_gt (minDist32 l1) dist' then l1\<lparr>minDist32 := dist'\<rparr> else l1);
            l3 = (if f32_gt dist' (maxDist32 l2) then l2\<lparr>maxDist32 := dist'\<rparr> else l2)
        in l3
      else l)"

fun scan_loop32 :: "f32 list \<Rightarrow> scan_locals32 \<Rightarrow> scan_locals32" where
  "scan_loop32 [] l = l"
| "scan_loop32 (dist' # rest) l = scan_loop32 rest (scan_step32 dist' l)"

definition scan_variance32 :: "scan_locals32 \<Rightarrow> f32" where
  "scan_variance32 l =
     (if validCount32 l > 1 then
        let mean = fdiv (sum32 l) (f32_of_int (validCount32 l))
        in fsub (fdiv (sumSq32 l) (f32_of_int (validCount32 l))) (fmul mean mean)
      else Num 0)"

text \<open>
  The value that \<^verbatim>\<open>readTerrainArray\<close> of either sketch stores in
  \<^verbatim>\<open>terrainVariance\<close>: for a sweep of binary32 samples, and for the pulse
  widths \<open>durations\<close> that \<^verbatim>\<open>pulseIn\<close> returned. Last, the valid samples of
  a binary32 sweep.
\<close>

definition terrainVariance32 :: "f32 list \<Rightarrow> f32" where
  "terrainVariance32 sweep = scan_variance32 (scan_loop32 sweep scan_init32)"

definition readTerrainArray_variance32 :: "int list \<Rightarrow> f32" where
  "readTerrainArray_variance32 durations =
     terrainVariance32 (map readSingleUltrasonic32 durations)"

definition valid_samples32 :: "f32 list \<Rightarrow> f32 list" where
  "valid_samples32 sweep = filter (\<lambda>d. f32_gt d (Num 0)) sweep"

section \<open>Properties of the sweep loop\<close>

lemma scan_step_invalid: "\<not> d > 0 \<Longrightarrow> scan_step d l = l"
  by (simp add: scan_step_def)

lemma scan_loop_append:
  "scan_loop (xs @ ys) l = scan_loop ys (scan_loop xs l)"
  by (induction xs arbitrary: l) simp_all

lemma validCount_scan_loop:
  "validCount (scan_loop sweep l) = validCount l + int (length (valid_samples sweep))"
  by (induction sweep arbitrary: l) (simp_all add: scan_step_def valid_samples_def Let_def)

lemma sum_d_scan_loop:
  "sum_d (scan_loop sweep l) = sum_d l + sum_list (valid_samples sweep)"
  by (induction sweep arbitrary: l) (simp_all add: scan_step_def valid_samples_def Let_def)

lemma sumSq_scan_loop:
  "sumSq (scan_loop sweep l) = sumSq l + sum_list (map (\<lambda>d. d * d) (valid_samples sweep))"
  by (induction sweep arbitrary: l) (simp_all add: scan_step_def valid_samples_def Let_def)

lemma maxDist_scan_loop:
  "maxDist (scan_loop sweep l) = fold max (valid_samples sweep) (maxDist l)"
  by (induction sweep arbitrary: l) (auto simp add: scan_step_def valid_samples_def Let_def max_def)

lemma minDist_scan_loop:
  "minDist (scan_loop sweep l) = fold min (valid_samples sweep) (minDist l)"
  by (induction sweep arbitrary: l) (auto simp add: scan_step_def valid_samples_def Let_def min_def)

section \<open>Fields written by the reduction\<close>

lemma scanner_analyzeTerrain_fields:
  "terrain (scanner_analyzeTerrain n g) = terrain g"
  "terrainMin (scanner_analyzeTerrain n g) = terrainMin g"
  "terrainMax (scanner_analyzeTerrain n g) = terrainMax g"
  "terrainVariance (scanner_analyzeTerrain n g) = terrainVariance g"
  by (simp_all add: scanner_analyzeTerrain_def Let_def)

lemma mega_analyzeTerrain_fields:
  "terrain (mega_analyzeTerrain t) = terrain t"
  "terrainMin (mega_analyzeTerrain t) = terrainMin t"
  "terrainMax (mega_analyzeTerrain t) = terrainMax t"
  "terrainVariance (mega_analyzeTerrain t) = terrainVariance t"
  by (simp_all add: mega_analyzeTerrain_def Let_def)

lemma scanner_reduce_fields:
  "terrain (scanner_reduce sweep g) = sweep"
  "terrainMin (scanner_reduce sweep g) =
     (if validCount (scan_loop sweep scan_init) > 0 then minDist (scan_loop sweep scan_init) else 0)"
  "terrainMax (scanner_reduce sweep g) =
     (if validCount (scan_loop sweep scan_init) > 0 then maxDist (scan_loop sweep scan_init) else 0)"
  "terrainVariance (scanner_reduce sweep g) = scan_variance (scan_loop sweep scan_init)"
  by (simp_all add: scanner_reduce_def Let_def scanner_analyzeTerrain_fields)

lemma mega_reduce_fields:
  "terrain (mega_reduce sweep t) = sweep"
  "terrainMin (mega_reduce sweep t) = minDist (scan_loop sweep scan_init)"
  "terrainMax (mega_reduce sweep t) = maxDist (scan_loop sweep scan_init)"
  "terrainVariance (mega_reduce sweep t) = scan_variance (scan_loop sweep scan_init)"
  by (simp_all add: mega_reduce_def Let_def mega_analyzeTerrain_fields)

lemma scan_loop_no_valid:
  "valid_samples sweep = [] \<Longrightarrow> scan_loop sweep l = l"
  by (induction sweep arbitrary: l)
     (simp_all add: valid_samples_def scan_step_def split: if_splits)

section \<open>The statistics in terms of the valid samples\<close>

lemma scan_loop_skip_timeout:
  "scan_loop (map readSingleUltrasonic (before @ 0 # after)) l =
   scan_loop (map readSingleUltrasonic (before @ after)) l"
  by (simp add: scan_loop_append readSingleUltrasonic_def scan_step_def)

lemma fold_max_Max:
  fixes v :: "real list"
  assumes "v \<noteq> []" and "\<forall>d\<in>set v. m \<le> d"
  shows "fold max v m = Max (set v)"
proof -
  have "fold max v m = Max (set (m # v))"
    by (simp only: Max.set_eq_fold)
  also have "\<dots> = max m (Max (set v))"
    using assms(1) by simp
  also have "\<dots> = Max (set v)"
  proof -
    obtain d where "d \<in> set v" using assms(1) by (cases v) auto
    then have "m \<le> d" "d \<le> Max (set v)" using assms(2) by auto
    then show ?thesis by (simp add: max_def)
  qed
  finally show ?thesis .
qed

lemma fold_min_Min:
  fixes v :: "real list"
  assumes "v \<noteq> []" and "\<forall>d\<in>set v. d \<le> m"
  shows "fold min v m = Min (set v)"
proof -
  have "fold min v m = Min (set (m # v))"
    by (simp only: Min.set_eq_fold)
  also have "\<dots> = min m (Min (set v))"
    using assms(1) by simp
  also have "\<dots> = Min (set v)"
  proof -
    obtain d where "d \<in> set v" using assms(1) by (cases v) auto
    then have "d \<le> m" "Min (set v) \<le> d" using assms(2) by auto
    then show ?thesis by (simp add: min_def)
  qed
  finally show ?thesis .
qed

lemma maxDist_is_Max:
  assumes "valid_samples sweep \<noteq> []"
  shows "maxDist (scan_loop sweep scan_init) = Max (set (valid_samples sweep))"
proof -
  have "\<forall>d\<in>set (valid_samples sweep). 0 \<le> d"
    by (simp add: valid_samples_def)
  with assms show ?thesis
    by (simp add: maxDist_scan_loop scan_init_def fold_max_Max)
qed

lemma minDist_is_Min:
  assumes "valid_samples sweep \<noteq> []" and "\<forall>d\<in>set sweep. d \<le> 9999"
  shows "minDist (scan_loop sweep scan_init) = Min (set (valid_samples sweep))"
proof -
  have "\<forall>d\<in>set (valid_samples sweep). d \<le> 9999"
    using assms(2) by (simp add: valid_samples_def)
  with assms(1) show ?thesis
    by (simp add: minDist_scan_loop scan_init_def fold_min_Min)
qed

lemma length_valid_invalid:
  "length (valid_samples sweep) + length (invalid_samples sweep) = length sweep"
proof -
  have "invalid_samples sweep = filter (\<lambda>d. \<not> d > 0) sweep"
    by (simp add: invalid_samples_def not_less)
  then show ?thesis
    by (simp add: valid_samples_def sum_length_filter_compl)
qed

lemma mega_count_outOfRange_eq:
  "mega_count_outOfRange sweep n = n + int (length (filter (\<lambda>d. d < 0) sweep))"
  by (induction sweep arbitrary: n) simp_all

lemma mega_count_outOfRange_invalid:
  assumes "0 \<notin> set sweep"
  shows "mega_count_outOfRange sweep 0 = int (length (invalid_samples sweep))"
proof -
  have "filter (\<lambda>d. d < 0) sweep = filter (\<lambda>d. d \<le> 0) sweep"
    using assms by (intro filter_cong) (auto simp add: less_le)
  then show ?thesis
    by (simp add: mega_count_outOfRange_eq invalid_samples_def)
qed

section \<open>What the driver can return\<close>

lemma readSingleUltrasonic_nonzero: "readSingleUltrasonic duration \<noteq> 0"
  by (simp add: readSingleUltrasonic_def)

lemma readSingleUltrasonic_bound:
  assumes "duration \<le> 30000"
  shows "readSingleUltrasonic duration \<le> 514.5"
proof -
  have "real_of_int duration \<le> 30000" using assms by simp
  then show ?thesis by (simp add: readSingleUltrasonic_def)
qed

lemma readSingleUltrasonic_sentinel_or_positive:
  assumes "0 \<le> duration"
  shows "readSingleUltrasonic duration = - 1 \<or> 0 < readSingleUltrasonic duration"
  using assms by (simp add: readSingleUltrasonic_def)

lemma driver_sweep_wellformed:
  assumes "\<forall>d\<in>set durations. d \<le> 30000"
  shows "(\<forall>x\<in>set (map readSingleUltrasonic durations). x \<le> 9999) \<and>
         0 \<notin> set (map readSingleUltrasonic durations)"
proof -
  have "\<forall>x\<in>set (map readSingleUltrasonic durations). x \<le> 9999"
  proof
    fix x assume "x \<in> set (map readSingleUltrasonic durations)"
    then obtain d where "d \<in> set durations" and x: "x = readSingleUltrasonic d" by auto
    with assms have "d \<le> 30000" by simp
    from readSingleUltrasonic_bound [OF this] x show "x \<le> 9999" by simp
  qed
  moreover have "0 \<notin> set (map readSingleUltrasonic durations)"
    using readSingleUltrasonic_nonzero by (auto simp add: image_iff)
  ultimately show ?thesis by simp
qed

section \<open>The status written by the classifier\<close>

lemma scanner_status_cases:
  "terrainStatus (scanner_analyzeTerrain n g) \<in>
     {''NO_GROUND'', ''HAZARD!'', ''UNEVEN'', ''FLAT-SAFE'', ''NO_DATA''}"
  by (simp add: scanner_analyzeTerrain_def Let_def)

lemma mega_status_cases:
  "terrainStatus (mega_analyzeTerrain t) \<in>
     {''NO GROUND'', ''HAZARD!'', ''UNEVEN'', ''FLAT-SAFE''}"
  by (simp add: mega_analyzeTerrain_def Let_def)

lemma scanner_status_spec:
  assumes "int (length sweep) = scanner_NUM_SENSORS" and "\<forall>d\<in>set sweep. d \<le> 9999"
  shows "classification_of (terrainStatus (scanner_reduce sweep g)) = Some (spec_classify sweep)"
proof -
  let ?v = "valid_samples sweep"
  have len: "int (length (invalid_samples sweep)) = 5 - int (length ?v)"
    using length_valid_invalid [of sweep] assms(1)
    by (simp add: scanner_NUM_SENSORS_def mega_NUM_SENSORS_def)
  show ?thesis
  proof (cases "length (invalid_samples sweep) \<ge> 3")
    case True
    then show ?thesis
      using len
      by (simp add: scanner_reduce_def scanner_analyzeTerrain_def Let_def
          validCount_scan_loop scan_init_def scanner_NUM_SENSORS_def
          spec_classify_def classification_of_def)
  next
    case False
    then have ne: "?v \<noteq> []" using len by auto
    have vc: "validCount (scan_loop sweep scan_init) = int (length ?v)"
      by (simp add: validCount_scan_loop scan_init_def)
    have pos: "0 < int (length ?v)" using ne by simp
    show ?thesis
      using False len ne pos
      by (simp add: scanner_reduce_def scanner_analyzeTerrain_def Let_def vc
          scanner_NUM_SENSORS_def spec_classify_def classification_of_def
          maxDist_is_Max [OF ne] minDist_is_Min [OF ne assms(2)])
  qed
qed

lemma mega_status_spec:
  assumes "int (length sweep) = mega_NUM_SENSORS" and "\<forall>d\<in>set sweep. d \<le> 9999" and "0 \<notin> set sweep"
  shows "classification_of (terrainStatus (mega_reduce sweep t)) = Some (spec_classify sweep)"
proof -
  let ?v = "valid_samples sweep"
  have len: "int (length (invalid_samples sweep)) = 6 - int (length ?v)"
    using length_valid_invalid [of sweep] assms(1)
    by (simp add: scanner_NUM_SENSORS_def mega_NUM_SENSORS_def)
  have cnt: "mega_count_outOfRange sweep 0 = int (length (invalid_samples sweep))"
    by (rule mega_count_outOfRange_invalid [OF assms(3)])
  show ?thesis
  proof (cases "length (invalid_samples sweep) \<ge> 3")
    case True
    then show ?thesis
      by (simp add: mega_reduce_def mega_analyzeTerrain_def Let_def cnt
          spec_classify_def classification_of_def)
  next
    case False
    then have ne: "?v \<noteq> []" using len by auto
    show ?thesis
      using False ne
      by (simp add: mega_reduce_def mega_analyzeTerrain_def Let_def cnt
          spec_classify_def classification_of_def
          maxDist_is_Max [OF ne] minDist_is_Min [OF ne assms(2)])
  qed
qed

lemma spec_classify_10_70:
  assumes "set (valid_samples sweep) = {10, 70}"
  shows "spec_classify sweep =
           (if length (invalid_samples sweep) \<ge> 3 then NO_GROUND else HAZARD)"
  using assms by (simp add: spec_classify_def Let_def)

lemma bounded_10_70:
  assumes "set (valid_samples sweep) = {10, 70}"
  shows "\<forall>d\<in>set sweep. d \<le> 9999"
proof
  fix d assume d: "d \<in> set sweep"
  show "d \<le> 9999"
  proof (cases "d > 0")
    case True
    with d have "d \<in> set (valid_samples sweep)" by (simp add: valid_samples_def)
    with assms show ?thesis by auto
  next
    case False
    then show ?thesis by simp
  qed
qed

lemma mega_status_10_70:
  assumes "set (valid_samples sweep) = {10, 70}"
  shows "classification_of (terrainStatus (mega_reduce sweep t)) =
           Some (if length (filter (\<lambda>d. d < 0) sweep) \<ge> 3 then NO_GROUND else HAZARD)"
proof -
  from assms have ne: "valid_samples sweep \<noteq> []" by auto
  have mx: "maxDist (scan_loop sweep scan_init) = 70"
    using maxDist_is_Max [OF ne] assms by simp
  have mn: "minDist (scan_loop sweep scan_init) = 10"
    using minDist_is_Min [OF ne bounded_10_70 [OF assms]] assms by simp
  show ?thesis
    by (simp add: mega_reduce_def mega_analyzeTerrain_def Let_def mx mn
        mega_count_outOfRange_eq classification_of_def)
qed

lemma scanner_never_NO_DATA:
  "terrainStatus (scanner_reduce sweep g) \<noteq> ''NO_DATA''"
  by (simp add: scanner_reduce_def scanner_analyzeTerrain_def Let_def
      validCount_scan_loop scan_init_def scanner_NUM_SENSORS_def)

lemma mega_never_NO_DATA:
  "terrainStatus (mega_reduce sweep t) \<noteq> ''NO_DATA''"
  by (simp add: mega_reduce_def mega_analyzeTerrain_def Let_def)

lemma classification_NO_DATA_iff:
  "classification_of s = Some NO_DATA \<longleftrightarrow> s = ''NO_DATA''"
  by (simp add: classification_of_def)

lemma no_valid_all_invalid:
  assumes "valid_samples sweep = []"
  shows "length (invalid_samples sweep) = length sweep"
  using length_valid_invalid [of sweep] assms by simp

lemma scanner_no_valid_NO_GROUND:
  assumes "valid_samples sweep = []"
  shows "terrainStatus (scanner_reduce sweep g) = ''NO_GROUND''"
  using assms
  by (simp add: scanner_reduce_def scanner_analyzeTerrain_def Let_def
      validCount_scan_loop scan_init_def scanner_NUM_SENSORS_def)

lemma mega_no_valid_NO_GROUND:
  assumes "valid_samples sweep = []" and "0 \<notin> set sweep" and "int (length sweep) = mega_NUM_SENSORS"
  shows "terrainStatus (mega_reduce sweep t) = ''NO GROUND''"
  using assms no_valid_all_invalid [OF assms(1)]
  by (simp add: mega_reduce_def mega_analyzeTerrain_def Let_def
      mega_count_outOfRange_invalid mega_NUM_SENSORS_def)

section \<open>Angles\<close>

lemma atan2_cases:
  "0 < x \<Longrightarrow> atan2 y x = arctan (y / x)"
  "x < 0 \<Longrightarrow> 0 \<le> y \<Longrightarrow> atan2 y x = arctan (y / x) + pi"
  "x < 0 \<Longrightarrow> y < 0 \<Longrightarrow> atan2 y x = arctan (y / x) - pi"
  "0 < y \<Longrightarrow> atan2 y 0 = pi / 2"
  "y < 0 \<Longrightarrow> atan2 y 0 = - (pi / 2)"
  "atan2 0 0 = 0"
  by (simp_all add: atan2_def)

lemma atan2_bounds: "- pi < atan2 y x \<and> atan2 y x \<le> pi"
proof -
  have l: "- (pi / 2) < arctan (y / x)" by (rule arctan_lbound)
  have u: "arctan (y / x) < pi / 2" by (rule arctan_ubound)
  have p: "0 < pi" by (rule pi_gt_zero)
  consider (right) "0 < x" | (left_up) "x < 0" "0 \<le> y" | (left_down) "x < 0" "y < 0"
    | (up) "x = 0" "0 < y" | (down) "x = 0" "y < 0" | (origin) "x = 0" "y = 0"
    by linarith
  then show ?thesis
  proof cases
    case right
    from atan2_cases(1) [OF this, of y] l u p show ?thesis by linarith
  next
    case left_up
    then have "arctan (y / x) \<le> 0"
      by (simp add: divide_nonneg_neg arctan_le_zero_iff)
    with atan2_cases(2) [OF left_up] l p show ?thesis by linarith
  next
    case left_down
    then have "0 < arctan (y / x)"
      by (simp add: divide_neg_neg)
    with atan2_cases(3) [OF left_down] u p show ?thesis by linarith
  next
    case up
    from atan2_cases(4) [OF up(2)] p show ?thesis unfolding up(1) by linarith
  next
    case down
    from atan2_cases(5) [OF down(2)] p show ?thesis unfolding down(1) by linarith
  next
    case origin
    from atan2_cases(6) p show ?thesis unfolding origin by linarith
  qed
qed

text \<open>
  \<^const>\<open>atan2\<close> is the argument of the complex number \<open>x + iy\<close> of the
  library, which confirms the case distinction of its definition.
\<close>

lemma norm_Complex_scaled:
  assumes "x \<noteq> 0"
  shows "sqrt (x\<^sup>2 + y\<^sup>2) = \<bar>x\<bar> * sqrt (1 + (y / x)\<^sup>2)"
proof -
  have "x\<^sup>2 + y\<^sup>2 = x\<^sup>2 * (1 + (y / x)\<^sup>2)"
    using assms by (simp add: field_simps power2_eq_square)
  then show ?thesis by (simp add: real_sqrt_mult)
qed

lemma sgn_Complex_right:
  assumes "0 < x"
  shows "sgn (Complex x y) = cis (arctan (y / x))"
proof -
  let ?r = "sqrt (1 + (y / x)\<^sup>2)"
  have r: "0 < ?r" by (simp add: add_pos_nonneg)
  have n: "cmod (Complex x y) = x * ?r"
    using norm_Complex_scaled [of x y] assms by (simp add: cmod_def)
  show ?thesis
    using assms r
    by (simp add: complex_eq_iff sgn_eq n cos_arctan sin_arctan field_simps)
qed

lemma sgn_Complex_left:
  assumes "x < 0"
  shows "sgn (Complex x y) = - cis (arctan (y / x))"
proof -
  let ?r = "sqrt (1 + (y / x)\<^sup>2)"
  have r: "0 < ?r" by (simp add: add_pos_nonneg)
  have n: "cmod (Complex x y) = - x * ?r"
    using norm_Complex_scaled [of x y] assms by (simp add: cmod_def)
  show ?thesis
    using assms r
    by (simp add: complex_eq_iff sgn_eq n cos_arctan sin_arctan field_simps)
qed

lemma cis_shift: "cis (a + pi) = - cis a" "cis (a - pi) = - cis a"
  by (simp_all add: complex_eq_iff)

lemma sgn_cis_atan2:
  assumes "x \<noteq> 0 \<or> y \<noteq> 0"
  shows "sgn (Complex x y) = cis (atan2 y x)"
proof -
  consider (right) "0 < x" | (left_up) "x < 0" "0 \<le> y" | (left_down) "x < 0" "y < 0"
    | (up) "x = 0" "0 < y" | (down) "x = 0" "y < 0"
    using assms by linarith
  then show ?thesis
  proof cases
    case right
    then show ?thesis by (simp add: atan2_cases(1) sgn_Complex_right)
  next
    case left_up
    then show ?thesis by (simp add: atan2_cases(2) sgn_Complex_left cis_shift)
  next
    case left_down
    then show ?thesis by (simp add: atan2_cases(3) sgn_Complex_left cis_shift)
  next
    case up
    then show ?thesis
      by (simp add: atan2_cases(4) complex_eq_iff sgn_eq cmod_def)
  next
    case down
    then show ?thesis
      by (simp add: atan2_cases(5) complex_eq_iff sgn_eq cmod_def)
  qed
qed

lemma atan2_is_Arg: "atan2 y x = Arg (Complex x y)"
proof (cases "x = 0 \<and> y = 0")
  case True
  then show ?thesis by (simp add: atan2_cases(6) Arg_def Complex_eq_0)
next
  case False
  then have "sgn (Complex x y) = cis (atan2 y x)" by (intro sgn_cis_atan2) simp
  from cis_Arg_unique [OF this] atan2_bounds [of y x] show ?thesis by simp
qed

lemma atan2_right_half:
  assumes "0 \<le> x"
  shows "- (pi / 2) \<le> atan2 y x \<and> atan2 y x \<le> pi / 2"
proof (cases "x = 0")
  case True
  then show ?thesis using pi_gt_zero by (simp add: atan2_def)
next
  case False
  with assms have "0 < x" by simp
  moreover have "- (pi / 2) < arctan (y / x)" "arctan (y / x) < pi / 2"
    by (rule arctan_lbound, rule arctan_ubound)
  ultimately show ?thesis by (simp add: atan2_def)
qed

lemma degrees_le: "a * 180.0 / pi \<le> d \<longleftrightarrow> a \<le> d * pi / 180" for a d :: real
  using pi_gt_zero by (simp add: field_simps)

lemma degrees_ge: "d \<le> a * 180.0 / pi \<longleftrightarrow> d * pi / 180 \<le> a" for a d :: real
  using pi_gt_zero by (simp add: field_simps)

lemma degrees_less: "a * 180.0 / pi < d \<longleftrightarrow> a < d * pi / 180" for a d :: real
  using pi_gt_zero by (simp add: field_simps)

lemma heading_normalised:
  fixes a :: real
  assumes "- pi < a" and "a \<le> pi"
  defines "h \<equiv> a * 180.0 / pi"
  shows "0 \<le> (if h < 0 then h + 360 else h) \<and> (if h < 0 then h + 360 else h) < 360"
proof -
  have lo: "- 180 < h" 
    using assms(1) pi_gt_zero unfolding h_def by (simp add: field_simps)
  have hi: "h \<le> 180"
    using assms(2) pi_gt_zero unfolding h_def by (simp add: field_simps)
  from lo hi show ?thesis by auto
qed

lemma mega_heading_eq:
  "heading (mega_readQMC5883L rawX rawY rawZ t) =
     (if atan2 (real_of_int rawY) (real_of_int rawX) * 180.0 / pi < 0
      then atan2 (real_of_int rawY) (real_of_int rawX) * 180.0 / pi + 360
      else atan2 (real_of_int rawY) (real_of_int rawX) * 180.0 / pi)"
  by (simp add: mega_readQMC5883L_def Let_def)

lemma esp_heading_eq:
  "heading (esp_readQMC5883L 6 x y z t) =
     (if atan2 (real_of_int y) (real_of_int x) * 180.0 / pi < 0
      then atan2 (real_of_int y) (real_of_int x) * 180.0 / pi + 360
      else atan2 (real_of_int y) (real_of_int x) * 180.0 / pi)"
  by (simp add: esp_readQMC5883L_def Let_def)

lemma atan2_cardinal:
  "atan2 0 1 = 0" "atan2 1 0 = pi / 2" "atan2 0 (- 1) = pi" "atan2 (- 1) 0 = - (pi / 2)"
  by (simp_all add: atan2_def)

lemma heading_cardinal:
  "heading (mega_readQMC5883L 1 0 rawZ t) = 0"
  "heading (mega_readQMC5883L 0 1 rawZ t) = 90"
  "heading (mega_readQMC5883L (- 1) 0 rawZ t) = 180"
  "heading (mega_readQMC5883L 0 (- 1) rawZ t) = 270"
  using pi_gt_zero by (simp_all add: mega_heading_eq atan2_cardinal)

lemma esp_heading_cardinal:
  "heading (esp_readQMC5883L 6 1 0 z t) = 0"
  "heading (esp_readQMC5883L 6 0 1 z t) = 90"
  "heading (esp_readQMC5883L 6 (- 1) 0 z t) = 180"
  "heading (esp_readQMC5883L 6 0 (- 1) z t) = 270"
  using pi_gt_zero by (simp_all add: esp_heading_eq atan2_cardinal)

lemma esp_heading_range:
  "0 \<le> heading (esp_readQMC5883L 6 x y z t) \<and> heading (esp_readQMC5883L 6 x y z t) < 360"
  using heading_normalised [of "atan2 (real_of_int y) (real_of_int x)"] atan2_bounds
  by (simp add: esp_heading_eq)

lemma mega_heading_range:
  "0 \<le> heading (mega_readQMC5883L rawX rawY rawZ t) \<and>
   heading (mega_readQMC5883L rawX rawY rawZ t) < 360"
  using heading_normalised [of "atan2 (real_of_int rawY) (real_of_int rawX)"] atan2_bounds
  by (simp add: mega_heading_eq)

lemma readMPU6050_fields:
  "accelX (readMPU6050 rawX rawY rawZ t) = real_of_int rawX / 16384"
  "accelY (readMPU6050 rawX rawY rawZ t) = real_of_int rawY / 16384"
  "accelZ (readMPU6050 rawX rawY rawZ t) = real_of_int rawZ / 16384"
  "roll (readMPU6050 rawX rawY rawZ t) =
     atan2 (real_of_int rawY / 16384) (real_of_int rawZ / 16384) * 180 / pi"
  "pitch (readMPU6050 rawX rawY rawZ t) =
     atan2 (- (real_of_int rawX / 16384))
       (sqrt (real_of_int rawY / 16384 * (real_of_int rawY / 16384)
            + real_of_int rawZ / 16384 * (real_of_int rawZ / 16384))) * 180 / pi"
  by (simp_all add: readMPU6050_def Let_def)

lemma degrees_right_half:
  assumes "- (pi / 2) \<le> a \<and> a \<le> pi / 2"
  shows "- 90 \<le> a * 180 / pi \<and> a * 180 / pi \<le> 90"
  using assms pi_gt_zero by (simp add: field_simps)

lemma degrees_full:
  assumes "- pi < a \<and> a \<le> pi"
  shows "- 180 < a * 180 / pi \<and> a * 180 / pi \<le> 180"
  using assms pi_gt_zero by (simp add: field_simps)

lemma pitch_range:
  "- 90 \<le> pitch (readMPU6050 rawX rawY rawZ t) \<and> pitch (readMPU6050 rawX rawY rawZ t) \<le> 90"
  unfolding readMPU6050_fields
  by (rule degrees_right_half, rule atan2_right_half) simp

lemma roll_range:
  "- 180 < roll (readMPU6050 rawX rawY rawZ t) \<and> roll (readMPU6050 rawX rawY rawZ t) \<le> 180"
  unfolding readMPU6050_fields
  by (rule degrees_full, rule atan2_bounds)

lemma level_orientation:
  "accelX (readMPU6050 0 0 16384 t) = 0"
  "accelY (readMPU6050 0 0 16384 t) = 0"
  "accelZ (readMPU6050 0 0 16384 t) = 1"
  "roll (readMPU6050 0 0 16384 t) = 0"
  "pitch (readMPU6050 0 0 16384 t) = 0"
  by (simp_all add: readMPU6050_fields atan2_def)

section \<open>The log of a sweep\<close>

lemma triggered_append: "triggered trig (xs @ ys) = triggered trig xs @ triggered trig ys"
  by (induction trig xs rule: triggered.induct) simp_all

lemma measured_append: "measured (xs @ ys) = measured xs @ measured ys"
  by (induction xs rule: measured.induct) simp_all

lemma hw_readSingleUltrasonic_world:
  "snd (hw_readSingleUltrasonic trig echo pin w) =
     w\<lparr>micros := micros w + 12 + snd (echo pin),
       hw_log := hw_log w @
         [(micros w, DigitalWrite trig False),
          (micros w + 2, DigitalWrite trig True),
          (micros w + 12, DigitalWrite trig False),
          (micros w + 12 + snd (echo pin), PulseInReturn pin)]\<rparr>"
  by (simp add: hw_readSingleUltrasonic_def digitalWrite_def delayMicroseconds_def
      pulseIn_def Let_def split: prod.split)

lemma hw_readSingleUltrasonic_value:
  "fst (hw_readSingleUltrasonic trig echo pin w) = readSingleUltrasonic (fst (echo pin))"
  by (simp add: hw_readSingleUltrasonic_def pulseIn_def Let_def split: prod.split)

lemma hw_sweep_values:
  "fst (hw_sweep trig echo pins w) = map (\<lambda>pin. readSingleUltrasonic (fst (echo pin))) pins"
proof (induction pins arbitrary: w)
  case Nil
  show ?case by simp
next
  case (Cons pin pins)
  show ?case
    using Cons.IH hw_readSingleUltrasonic_value [of trig echo pin w]
    by (simp add: Let_def split: prod.split) (metis fst_conv)
qed

lemma hw_sweep_triggered:
  "triggered trig (hw_log (snd (hw_sweep trig echo pins w))) =
     triggered trig (hw_log w) @ map fst (schedule echo pins (micros w))"
proof (induction pins arbitrary: w)
  case Nil
  show ?case by simp
next
  case (Cons pin pins)
  let ?w1 = "snd (hw_readSingleUltrasonic trig echo pin w)"
  have step: "snd (hw_sweep trig echo (pin # pins) w) = snd (hw_sweep trig echo pins (delay 30 ?w1))"
    by (simp add: Let_def split: prod.split)
  show ?case
    unfolding step Cons.IH
    by (simp add: hw_readSingleUltrasonic_world delay_def triggered_append)
qed

lemma hw_sweep_measured:
  "measured (hw_log (snd (hw_sweep trig echo pins w))) =
     measured (hw_log w) @ zip (map snd (schedule echo pins (micros w))) pins"
proof (induction pins arbitrary: w)
  case Nil
  show ?case by simp
next
  case (Cons pin pins)
  let ?w1 = "snd (hw_readSingleUltrasonic trig echo pin w)"
  have step: "snd (hw_sweep trig echo (pin # pins) w) = snd (hw_sweep trig echo pins (delay 30 ?w1))"
    by (simp add: Let_def split: prod.split)
  show ?case
    unfolding step Cons.IH
    by (simp add: hw_readSingleUltrasonic_world delay_def measured_append)
qed

lemma length_schedule: "length (schedule echo pins c) = length pins"
  by (induction pins arbitrary: c) simp_all

lemma schedule_own_window:
  "k < length pins \<Longrightarrow>
     fst (schedule echo pins c ! k) + 10 + snd (echo (pins ! k)) = snd (schedule echo pins c ! k)"
proof (induction pins arbitrary: c k)
  case Nil
  then show ?case by simp
next
  case (Cons pin pins)
  then show ?case by (cases k) simp_all
qed

lemma schedule_first:
  "pins \<noteq> [] \<Longrightarrow> fst (schedule echo pins c ! 0) = c + 2"
  by (cases pins) simp_all

lemma schedule_settling:
  "k + 1 < length pins \<Longrightarrow>
     snd (schedule echo pins c ! k) + 30000 + 2 = fst (schedule echo pins c ! (k + 1))"
proof (induction pins arbitrary: c k)
  case Nil
  then show ?case by simp
next
  case (Cons pin pins)
  show ?case
  proof (cases k)
    case 0
    with Cons.prems have "pins \<noteq> []" by auto
    with 0 show ?thesis by (simp add: schedule_first)
  next
    case (Suc j)
    with Cons.prems have "j + 1 < length pins" by simp
    from Cons.IH [OF this] Suc show ?thesis by simp
  qed
qed

lemma hw_sweep_log_sorted:
  assumes "sorted (map fst (hw_log w))" and "\<forall>e\<in>set (hw_log w). fst e \<le> micros w"
  shows "sorted (map fst (hw_log (snd (hw_sweep trig echo pins w)))) \<and>
         (\<forall>e\<in>set (hw_log (snd (hw_sweep trig echo pins w))).
            fst e \<le> micros (snd (hw_sweep trig echo pins w)))"
  using assms
proof (induction pins arbitrary: w)
  case Nil
  then show ?case by simp
next
  case (Cons pin pins)
  let ?w1 = "snd (hw_readSingleUltrasonic trig echo pin w)"
  let ?w2 = "delay 30 ?w1"
  have step: "snd (hw_sweep trig echo (pin # pins) w) = snd (hw_sweep trig echo pins ?w2)"
    by (simp add: Let_def split: prod.split)
  have s: "sorted (map fst (hw_log ?w2))"
    using Cons.prems
    by (auto simp add: hw_readSingleUltrasonic_world delay_def sorted_append)
  have b: "\<forall>e\<in>set (hw_log ?w2). fst e \<le> micros ?w2"
    using Cons.prems
    by (auto simp add: hw_readSingleUltrasonic_world delay_def)
  from Cons.IH [OF s b] show ?case unfolding step .
qed

lemma hw_sweep_sequential:
  "(let lg = hw_log (snd (hw_sweep TRIG echo pins \<lparr>micros = t0, hw_log = []\<rparr>)) in
      map snd (measured lg) = pins \<and>
      length (triggered TRIG lg) = length pins \<and>
      sorted (map fst lg) \<and>
      (\<forall>k. k < length pins \<longrightarrow>
         triggered TRIG lg ! k + 10 + snd (echo (pins ! k)) = fst (measured lg ! k)) \<and>
      (\<forall>k. k + 1 < length pins \<longrightarrow>
         fst (measured lg ! k) + 30000 \<le> triggered TRIG lg ! (k + 1)))"
proof -
  let ?w0 = "\<lparr>micros = t0, hw_log = []\<rparr>"
  let ?lg = "hw_log (snd (hw_sweep TRIG echo pins ?w0))"
  let ?sch = "schedule echo pins t0"
  have tr: "triggered TRIG ?lg = map fst ?sch"
    by (simp add: hw_sweep_triggered)
  have me: "measured ?lg = zip (map snd ?sch) pins"
    by (simp add: hw_sweep_measured)
  have len: "length ?sch = length pins" by (rule length_schedule)
  have a: "map snd (measured ?lg) = pins"
    unfolding me by (simp add: len)
  have b: "length (triggered TRIG ?lg) = length pins"
    unfolding tr by (simp add: len)
  have c: "sorted (map fst ?lg)"
    using hw_sweep_log_sorted [of ?w0 TRIG echo pins] by simp
  have d: "\<forall>k. k < length pins \<longrightarrow>
         triggered TRIG ?lg ! k + 10 + snd (echo (pins ! k)) = fst (measured ?lg ! k)"
    unfolding tr me using schedule_own_window [of _ pins echo t0] by (simp add: len)
  have e: "\<forall>k. k + 1 < length pins \<longrightarrow>
         fst (measured ?lg ! k) + 30000 \<le> triggered TRIG ?lg ! (k + 1)"
  proof (intro allI impI)
    fix k assume k: "k + 1 < length pins"
    from schedule_settling [OF k, of echo t0]
    show "fst (measured ?lg ! k) + 30000 \<le> triggered TRIG ?lg ! (k + 1)"
      unfolding tr me using k by (simp add: len)
  qed
  from a b c d e show ?thesis unfolding Let_def by blast
qed

lemma readTerrainArray_hw_world:
  "snd (scanner_readTerrainArray_hw echo w g) =
     snd (hw_sweep scanner_TRIG_PIN echo scanner_echoPins w)"
  "snd (mega_readTerrainArray_hw echo w t) =
     snd (hw_sweep mega_TRIG_PIN echo mega_echoPins w)"
  by (simp_all add: scanner_readTerrainArray_hw_def mega_readTerrainArray_hw_def
      split: prod.split)

lemma readTerrainArray_hw_data:
  "fst (scanner_readTerrainArray_hw echo w g) =
     scanner_readTerrainArray (map (\<lambda>pin. fst (echo pin)) scanner_echoPins) g"
  "fst (mega_readTerrainArray_hw echo w t) =
     mega_readTerrainArray (map (\<lambda>pin. fst (echo pin)) mega_echoPins) t"
proof -
  have "fst (scanner_readTerrainArray_hw echo w g) =
      scanner_reduce (fst (hw_sweep scanner_TRIG_PIN echo scanner_echoPins w)) g"
    by (simp add: scanner_readTerrainArray_hw_def split: prod.split)
  then show "fst (scanner_readTerrainArray_hw echo w g) =
     scanner_readTerrainArray (map (\<lambda>pin. fst (echo pin)) scanner_echoPins) g"
    by (simp add: hw_sweep_values scanner_readTerrainArray_def comp_def)
  have "fst (mega_readTerrainArray_hw echo w t) =
      mega_reduce (fst (hw_sweep mega_TRIG_PIN echo mega_echoPins w)) t"
    by (simp add: mega_readTerrainArray_hw_def split: prod.split)
  then show "fst (mega_readTerrainArray_hw echo w t) =
     mega_readTerrainArray (map (\<lambda>pin. fst (echo pin)) mega_echoPins) t"
    by (simp add: hw_sweep_values mega_readTerrainArray_def comp_def)
qed

lemma echoPins_length:
  "int (length scanner_echoPins) = scanner_NUM_SENSORS"
  "int (length mega_echoPins) = mega_NUM_SENSORS"
  by (simp_all add: scanner_echoPins_def mega_echoPins_def scanner_NUM_SENSORS_def
      mega_NUM_SENSORS_def)

lemma example_sweep_log:
  "hw_log (snd (hw_sweep scanner_TRIG_PIN example_echo scanner_echoPins
       \<lparr>micros = 0, hw_log = []\<rparr>)) =
     [(0, DigitalWrite 2 False), (2, DigitalWrite 2 True), (12, DigitalWrite 2 False),
      (1212, PulseInReturn 3),
      (31212, DigitalWrite 2 False), (31214, DigitalWrite 2 True), (31224, DigitalWrite 2 False),
      (61224, PulseInReturn 4),
      (91224, DigitalWrite 2 False), (91226, DigitalWrite 2 True), (91236, DigitalWrite 2 False),
      (92736, PulseInReturn 5),
      (122736, DigitalWrite 2 False), (122738, DigitalWrite 2 True), (122748, DigitalWrite 2 False),
      (124248, PulseInReturn 6),
      (154248, DigitalWrite 2 False), (154250, DigitalWrite 2 True), (154260, DigitalWrite 2 False),
      (155760, PulseInReturn 7)]"
  by (simp add: scanner_TRIG_PIN_def scanner_echoPins_def example_echo_def
      hw_readSingleUltrasonic_def digitalWrite_def delayMicroseconds_def delay_def
      pulseIn_def Let_def)

section \<open>Rounding to binary32\<close>

lemma round_half_even_eval:
  assumes "- (1 / 2) < r" and "r < 1 / 2"
  shows "round_half_even (of_int m + r) = m"
proof (cases "0 \<le> r")
  case True
  with assms have "\<lfloor>of_int m + r\<rfloor> = m" by linarith
  with assms True show ?thesis by (simp add: round_half_even_def)
next
  case False
  with assms have f: "\<lfloor>of_int m + r\<rfloor> = m - 1" by linarith
  with assms False show ?thesis by (simp add: round_half_even_def Let_def)
qed

lemma round_half_even_bound:
  assumes "\<bar>q\<bar> < of_int b"
  shows "\<bar>round_half_even q\<bar> \<le> b"
proof -
  have "q < of_int b" "of_int (- b) < q" using assms by auto
  then have "\<lfloor>q\<rfloor> < b" "- b \<le> \<lfloor>q\<rfloor>"
    by (simp_all add: floor_less_iff le_floor_iff)
  then show ?thesis by (auto simp add: round_half_even_def Let_def)
qed

lemma ulp_exponent_normal:
  assumes "2 ^ 23 \<le> \<bar>x\<bar> * 2 ^ k" and "\<bar>x\<bar> * 2 ^ k < 2 ^ 24" and "k \<le> 149"
  shows "ulp_exponent x = - int k"
proof -
  have pos: "0 < \<bar>x\<bar>" using assms(1) by (cases "x = 0") auto
  have "2 powr (23 - real k) \<le> \<bar>x\<bar>"
    using assms(1) by (simp add: powr_diff powr_realpow field_simps)
  moreover have "\<bar>x\<bar> < 2 powr (23 - real k + 1)"
    using assms(2) by (simp add: powr_diff powr_add powr_realpow field_simps)
  ultimately have "\<lfloor>log 2 \<bar>x\<bar>\<rfloor> = 23 - int k"
    using floor_log_eq_powr_iff [of "\<bar>x\<bar>" 2 "23 - int k"] pos by simp
  with assms(3) show ?thesis by (simp add: ulp_exponent_def)
qed

lemma rnd_normal:
  assumes "2 ^ 23 \<le> \<bar>x\<bar> * 2 ^ k" and "\<bar>x\<bar> * 2 ^ k < 2 ^ 24" and "k \<le> 149"
  shows "rnd x = Num (of_int (round_half_even (x * 2 ^ k)) / 2 ^ k)"
proof -
  have x0: "x \<noteq> 0" using assms(1) by auto
  have e: "ulp_exponent x = - int k" by (rule ulp_exponent_normal [OF assms])
  have p: "(2::real) powi (- int k) = 1 / 2 ^ k"
    by (simp add: power_int_minus field_simps)
  have r: "round32 x = of_int (round_half_even (x * 2 ^ k)) / 2 ^ k"
    using x0 by (simp add: round32_def e p)
  have "\<bar>x * 2 ^ k\<bar> < of_int (2 ^ 24)" using assms(2) by (simp add: abs_mult)
  from round_half_even_bound [OF this]
  have "real_of_int \<bar>round_half_even (x * 2 ^ k)\<bar> \<le> real_of_int (2 ^ 24)"
    by (simp only: of_int_le_iff)
  then have b: "\<bar>real_of_int (round_half_even (x * 2 ^ k))\<bar> \<le> 2 ^ 24"
    by simp
  have "(1::real) \<le> 2 ^ k" by simp
  then have "\<bar>real_of_int (round_half_even (x * 2 ^ k))\<bar> / 2 ^ k
      \<le> \<bar>real_of_int (round_half_even (x * 2 ^ k))\<bar> / 1"
    by (intro divide_left_mono) simp_all
  with b have "\<bar>real_of_int (round_half_even (x * 2 ^ k)) / 2 ^ k\<bar> \<le> 2 ^ 24"
    by (simp add: abs_divide)
  moreover have "(2::real) ^ 24 \<le> f32_max" by (simp add: f32_max_def)
  ultimately show ?thesis by (simp add: rnd_def r Let_def)
qed

lemma rnd_0: "rnd 0 = Num 0"
  by (simp add: rnd_def round32_def f32_max_def)

lemma rnd_eval:
  assumes "x * 2 ^ k = of_int m + r" and "- (1 / 2) < r" and "r < 1 / 2"
    and "2 ^ 23 \<le> \<bar>x\<bar> * 2 ^ k" and "\<bar>x\<bar> * 2 ^ k < 2 ^ 24" and "k \<le> 149"
  shows "rnd x = Num (of_int m / 2 ^ k)"
  using rnd_normal [OF assms(4-6)] round_half_even_eval [OF assms(2,3), of m] assms(1)
  by simp

lemma validCount32_scan_loop:
  "validCount32 (scan_loop32 sweep l) = validCount32 l + int (length (valid_samples32 sweep))"
  by (induction sweep arbitrary: l) (simp_all add: scan_step32_def valid_samples32_def Let_def)

lemma sum32_scan_loop:
  "sum32 (scan_loop32 sweep l) = foldl fadd (sum32 l) (valid_samples32 sweep)"
  by (induction sweep arbitrary: l) (simp_all add: scan_step32_def valid_samples32_def Let_def)

lemma sumSq32_scan_loop:
  "sumSq32 (scan_loop32 sweep l) =
     foldl fadd (sumSq32 l) (map (\<lambda>d. fmul d d) (valid_samples32 sweep))"
  by (induction sweep arbitrary: l) (simp_all add: scan_step32_def valid_samples32_def Let_def)

text \<open>
  The roundings that occur on the sweep of five pulses of 1507 microseconds,
  and on the sweep with the samples 10 and 25.
\<close>

lemma cx_r0: "rnd (343 / 10000) = Num (1150917 / 33554432)"
  using rnd_eval [of "343 / 10000" 28 "9207336" "88 / 625"] by simp

lemma cx_r1: "rnd 1507 = Num 1507"
  using rnd_eval [of "1507" 13 "12345344" "0"] by simp

lemma cx_r2: "rnd (1734431919 / 33554432) = Num (13550249 / 262144)"
  using rnd_eval [of "1734431919 / 33554432" 18 "13550249" "47 / 128"] by simp

lemma cx_r3: "rnd (13550249 / 524288) = Num (13550249 / 524288)"
  using rnd_eval [of "13550249 / 524288" 19 "13550249" "0"] by simp

lemma cx_r4: "rnd (183609247962001 / 274877906944) = Num (2735991 / 4096)"
  using rnd_eval [of "183609247962001 / 274877906944" 14 "10943964" "37777 / 16777216"] by simp

lemma cx_r5: "rnd (2735991 / 4096) = Num (2735991 / 4096)"
  using rnd_eval [of "2735991 / 4096" 14 "10943964" "0"] by simp

lemma cx_r6: "rnd (13550249 / 262144) = Num (13550249 / 262144)"
  using rnd_eval [of "13550249 / 262144" 18 "13550249" "0"] by simp

lemma cx_r7: "rnd (2735991 / 2048) = Num (2735991 / 2048)"
  using rnd_eval [of "2735991 / 2048" 13 "10943964" "0"] by simp

lemma cx_r8: "rnd (40650747 / 524288) = Num (10162687 / 131072)"
  using rnd_eval [of "40650747 / 524288" 17 "10162687" "- (1 / 4)"] by simp

lemma cx_r9: "rnd (8207973 / 4096) = Num (8207973 / 4096)"
  using rnd_eval [of "8207973 / 4096" 13 "16415946" "0"] by simp

lemma cx_r10: "rnd (54200997 / 524288) = Num (13550249 / 131072)"
  using rnd_eval [of "54200997 / 524288" 17 "13550249" "1 / 4"] by simp

lemma cx_r11: "rnd (2735991 / 1024) = Num (2735991 / 1024)"
  using rnd_eval [of "2735991 / 1024" 12 "10943964" "0"] by simp

lemma cx_r12: "rnd (67751245 / 524288) = Num (4234453 / 32768)"
  using rnd_eval [of "67751245 / 524288" 16 "8468906" "- (3 / 8)"] by simp

lemma cx_r13: "rnd (13679955 / 4096) = Num (13679955 / 4096)"
  using rnd_eval [of "13679955 / 4096" 12 "13679955" "0"] by simp

lemma cx_r14: "rnd 5 = Num 5"
  using rnd_eval [of "5" 21 "10485760" "0"] by simp

lemma cx_r15: "rnd (4234453 / 163840) = Num (6775125 / 262144)"
  using rnd_eval [of "4234453 / 163840" 19 "13550250" "- (2 / 5)"] by simp

lemma cx_r16: "rnd (45902318765625 / 68719476736) = Num (5471983 / 8192)"
  using rnd_eval [of "45902318765625 / 68719476736" 14 "10943966" "- (1604039 / 4194304)"] by simp

lemma cx_r17: "rnd (- (1 / 8192)) = Num (- (1 / 8192))"
  using rnd_eval [of "- (1 / 8192)" 36 "- 8388608" "0"] by simp

lemma wt_r0: "rnd 10 = Num 10"
  using rnd_eval [of "10" 20 "10485760" "0"] by simp

lemma wt_r1: "rnd 100 = Num 100"
  using rnd_eval [of "100" 17 "13107200" "0"] by simp

lemma wt_r2: "rnd 35 = Num 35"
  using rnd_eval [of "35" 18 "9175040" "0"] by simp

lemma wt_r3: "rnd 625 = Num 625"
  using rnd_eval [of "625" 14 "10240000" "0"] by simp

lemma wt_r4: "rnd 725 = Num 725"
  using rnd_eval [of "725" 14 "11878400" "0"] by simp

lemma wt_r5: "rnd 2 = Num 2"
  using rnd_eval [of "2" 22 "8388608" "0"] by simp

lemma wt_r6: "rnd (35 / 2) = Num (35 / 2)"
  using rnd_eval [of "35 / 2" 19 "9175040" "0"] by simp

lemma wt_r7: "rnd (725 / 2) = Num (725 / 2)"
  using rnd_eval [of "725 / 2" 15 "11878400" "0"] by simp

lemma wt_r8: "rnd (1225 / 4) = Num (1225 / 4)"
  using rnd_eval [of "1225 / 4" 15 "10035200" "0"] by simp

lemma wt_r9: "rnd (225 / 4) = Num (225 / 4)"
  using rnd_eval [of "225 / 4" 18 "14745600" "0"] by simp

lemmas cx_steps = cx_r0 cx_r1 cx_r2 cx_r3 cx_r4 cx_r5 cx_r6 cx_r7 cx_r8 cx_r9 cx_r10 cx_r11 cx_r12 cx_r13 cx_r14 cx_r15 cx_r16 cx_r17
lemmas wt_steps = wt_r0 wt_r1 wt_r2 wt_r3 wt_r4 wt_r5 wt_r6 wt_r7 wt_r8 wt_r9

section \<open>The classification rule chain\<close>

text \<open>
  Claim C1. For every completed sweep of \<open>N\<close> range samples the status that
  the classifier writes is the result of this rule chain, first match winning:
  \<open>NO_GROUND\<close> if at least 3 samples are invalid; else \<open>HAZARD\<close> if the
  maximum minus the minimum of the valid samples is above 50; else \<open>UNEVEN\<close>
  if it is above 20; else \<open>FLAT_SAFE\<close> if there is a valid sample; else
  \<open>NO_DATA\<close>. The chain is \<^const>\<open>spec_classify\<close>, written on the sweep alone.

  The first half is about any list of samples that the reduction may be given:
  five for \<^verbatim>\<open>terrain_scanner.ino\<close>, six for \<^verbatim>\<open>cansat_mega.ino\<close>, none
  above the initial value 9999 of \<^verbatim>\<open>minDist\<close> and, for
  \<^verbatim>\<open>cansat_mega.ino\<close>, none equal to 0. The second half is about the sweeps
  that the driver completes: a pulse width within the 30000 microsecond
  timeout of \<^verbatim>\<open>pulseIn\<close> gives a sample that is not 0 and at most 514.5.
\<close>

theorem classifier_rule_chain:
  "((\<forall>d\<in>set sweep. d \<le> 9999) \<longrightarrow>
      (int (length sweep) = scanner_NUM_SENSORS \<longrightarrow>
         classification_of (terrainStatus (scanner_reduce sweep g)) =
           Some (spec_classify sweep)) \<and>
      (int (length sweep) = mega_NUM_SENSORS \<and> 0 \<notin> set sweep \<longrightarrow>
         classification_of (terrainStatus (mega_reduce sweep t)) =
           Some (spec_classify sweep))) \<and>
   ((\<forall>d\<in>set durations. d \<le> 30000) \<longrightarrow>
      (int (length durations) = scanner_NUM_SENSORS \<longrightarrow>
         classification_of (terrainStatus (scanner_readTerrainArray durations g)) =
           Some (spec_classify (map readSingleUltrasonic durations))) \<and>
      (int (length durations) = mega_NUM_SENSORS \<longrightarrow>
         classification_of (terrainStatus (mega_readTerrainArray durations t)) =
           Some (spec_classify (map readSingleUltrasonic durations))))"
proof -
  have sample_level:
    "(\<forall>d\<in>set sweep. d \<le> 9999) \<longrightarrow>
      (int (length sweep) = scanner_NUM_SENSORS \<longrightarrow>
         classification_of (terrainStatus (scanner_reduce sweep g)) =
           Some (spec_classify sweep)) \<and>
      (int (length sweep) = mega_NUM_SENSORS \<and> 0 \<notin> set sweep \<longrightarrow>
         classification_of (terrainStatus (mega_reduce sweep t)) =
           Some (spec_classify sweep))"
    using scanner_status_spec mega_status_spec by blast
  have driver_level:
    "(\<forall>d\<in>set durations. d \<le> 30000) \<longrightarrow>
      (int (length durations) = scanner_NUM_SENSORS \<longrightarrow>
         classification_of (terrainStatus (scanner_readTerrainArray durations g)) =
           Some (spec_classify (map readSingleUltrasonic durations))) \<and>
      (int (length durations) = mega_NUM_SENSORS \<longrightarrow>
         classification_of (terrainStatus (mega_readTerrainArray durations t)) =
           Some (spec_classify (map readSingleUltrasonic durations)))"
  proof (intro impI conjI)
    assume b: "\<forall>d\<in>set durations. d \<le> 30000" and "int (length durations) = scanner_NUM_SENSORS"
    then show "classification_of (terrainStatus (scanner_readTerrainArray durations g)) =
           Some (spec_classify (map readSingleUltrasonic durations))"
      unfolding scanner_readTerrainArray_def
      using driver_sweep_wellformed [OF b] by (intro scanner_status_spec) simp_all
  next
    assume b: "\<forall>d\<in>set durations. d \<le> 30000" and "int (length durations) = mega_NUM_SENSORS"
    then show "classification_of (terrainStatus (mega_readTerrainArray durations t)) =
           Some (spec_classify (map readSingleUltrasonic durations))"
      unfolding mega_readTerrainArray_def
      using driver_sweep_wellformed [OF b] by (intro mega_status_spec) simp_all
  qed
  from sample_level driver_level show ?thesis by (rule conjI)
qed

theorem classifier_rule_chain_witness:
  "list_all (\<lambda>d. d \<le> 9999) [10, 25, 12, 11, 13 :: real] \<and>
   int (length [10, 25, 12, 11, 13 :: real]) = scanner_NUM_SENSORS \<and>
   classification_of (terrainStatus (scanner_reduce [10, 25, 12, 11, 13] scanner_initial)) =
     Some FLAT_SAFE \<and>
   spec_classify [10, 25, 12, 11, 13] = FLAT_SAFE \<and>
   int (length [10, 40, 12, 11, - 1, 13 :: real]) = mega_NUM_SENSORS \<and>
   0 \<notin> set [10, 40, 12, 11, - 1, 13 :: real] \<and>
   classification_of (terrainStatus (mega_reduce [10, 40, 12, 11, - 1, 13] mega_initial)) =
     Some UNEVEN \<and>
   spec_classify [10, 40, 12, 11, - 1, 13] = UNEVEN \<and>
   list_all (\<lambda>d. d \<le> 30000) [1000, 0, 2000, 0, 0, 5000 :: int] \<and>
   classification_of
     (terrainStatus (mega_readTerrainArray [1000, 0, 2000, 0, 0, 5000] mega_initial)) =
     Some NO_GROUND \<and>
   list_all (\<lambda>d. d \<le> 30000) [1000, 0, 2000, 1100, 5000 :: int] \<and>
   classification_of
     (terrainStatus (scanner_readTerrainArray [1000, 0, 2000, 1100, 5000] scanner_initial)) =
     Some HAZARD"
proof -
  have s: "spec_classify [10, 25, 12, 11, 13] = FLAT_SAFE"
    by (simp add: spec_classify_def valid_samples_def invalid_samples_def)
  have m: "spec_classify [10, 40, 12, 11, - 1, 13] = UNEVEN"
    by (simp add: spec_classify_def valid_samples_def invalid_samples_def)
  show ?thesis
    using classifier_rule_chain [of "[10, 25, 12, 11, 13]" scanner_initial mega_initial
        "[1000, 0, 2000, 1100, 5000]"]
      classifier_rule_chain [of "[10, 40, 12, 11, - 1, 13]" scanner_initial mega_initial
        "[1000, 0, 2000, 0, 0, 5000]"]
    by (simp add: s m spec_classify_def valid_samples_def invalid_samples_def
        readSingleUltrasonic_def scanner_NUM_SENSORS_def mega_NUM_SENSORS_def)
qed

section \<open>A sweep whose valid samples are 10 and 70\<close>

text \<open>
  Claim C2, as stated: a sweep whose valid samples are exactly 10 and 70 is
  classified \<open>HAZARD\<close> however many of its samples are valid. The sweep
  \<open>[10, 70, -1, -1, -1]\<close> has three invalid samples, and the first rule of
  the chain gives \<open>NO_GROUND\<close>; so does \<open>[10, 70, -1, -1, -1, -1]\<close> in
  \<^verbatim>\<open>cansat_mega.ino\<close>.
\<close>

theorem hazard_regardless_of_validCount_counterexample:
  "int (length [10, 70, - 1, - 1, - 1 :: real]) = scanner_NUM_SENSORS \<and>
   set (valid_samples [10, 70, - 1, - 1, - 1]) = {10, 70} \<and>
   terrainStatus (scanner_reduce [10, 70, - 1, - 1, - 1] scanner_initial) = ''NO_GROUND'' \<and>
   classification_of (terrainStatus (scanner_reduce [10, 70, - 1, - 1, - 1] scanner_initial))
     \<noteq> Some HAZARD \<and>
   int (length [10, 70, - 1, - 1, - 1, - 1 :: real]) = mega_NUM_SENSORS \<and>
   set (valid_samples [10, 70, - 1, - 1, - 1, - 1]) = {10, 70} \<and>
   terrainStatus (mega_reduce [10, 70, - 1, - 1, - 1, - 1] mega_initial) = ''NO GROUND'' \<and>
   classification_of (terrainStatus (mega_reduce [10, 70, - 1, - 1, - 1, - 1] mega_initial))
     \<noteq> Some HAZARD"
  by (simp add: valid_samples_def scanner_reduce_def scanner_analyzeTerrain_def
      mega_reduce_def mega_analyzeTerrain_def scan_step_def scan_init_def
      scanner_NUM_SENSORS_def mega_NUM_SENSORS_def classification_of_def Let_def)

text \<open>
  Claim C2, amended: a sweep of \<open>N\<close> samples whose valid samples are exactly
  10 and 70 is classified \<open>HAZARD\<close> when fewer than 3 of its samples are
  invalid, and \<open>NO_GROUND\<close> when 3 or more are. Invalid means not above 0 in
  \<^verbatim>\<open>terrain_scanner.ino\<close>, which subtracts the valid count from 5, and
  below 0 in \<^verbatim>\<open>cansat_mega.ino\<close>, which counts the negative entries of the
  array; the two agree on the sentinel \<open>-1\<close>.
\<close>

theorem hazard_10_70_unless_no_ground:
  "set (valid_samples sweep) = {10, 70} \<longrightarrow>
   (int (length sweep) = scanner_NUM_SENSORS \<longrightarrow>
      classification_of (terrainStatus (scanner_reduce sweep g)) =
        Some (if length (filter (\<lambda>d. \<not> d > 0) sweep) \<ge> 3 then NO_GROUND else HAZARD)) \<and>
   (int (length sweep) = mega_NUM_SENSORS \<longrightarrow>
      classification_of (terrainStatus (mega_reduce sweep t)) =
        Some (if length (filter (\<lambda>d. d < 0) sweep) \<ge> 3 then NO_GROUND else HAZARD))"
proof -
  have inv: "filter (\<lambda>d. \<not> d > 0) sweep = invalid_samples sweep"
    by (simp add: invalid_samples_def not_less)
  show ?thesis
    unfolding inv
    using scanner_status_spec [of sweep g] mega_status_10_70 [of sweep t]
      spec_classify_10_70 [of sweep] bounded_10_70 [of sweep]
    by simp
qed

theorem hazard_10_70_unless_no_ground_witness:
  "set (valid_samples [10, 70, 10, - 1, - 1]) = {10, 70} \<and>
   int (length [10, 70, 10, - 1, - 1 :: real]) = scanner_NUM_SENSORS \<and>
   classification_of (terrainStatus (scanner_reduce [10, 70, 10, - 1, - 1] scanner_initial)) =
     Some HAZARD \<and>
   set (valid_samples [10, 70, 10, - 1, - 1, - 1]) = {10, 70} \<and>
   int (length [10, 70, 10, - 1, - 1, - 1 :: real]) = mega_NUM_SENSORS \<and>
   classification_of (terrainStatus (mega_reduce [10, 70, 10, - 1, - 1, - 1] mega_initial)) =
     Some NO_GROUND \<and>
   set (valid_samples [10, 70, 0, 0, 0, 0]) = {10, 70} \<and>
   classification_of (terrainStatus (mega_reduce [10, 70, 0, 0, 0, 0] mega_initial)) =
     Some HAZARD"
  using hazard_10_70_unless_no_ground [of "[10, 70, 10, - 1, - 1]" scanner_initial mega_initial]
    hazard_10_70_unless_no_ground [of "[10, 70, 10, - 1, - 1, - 1]" scanner_initial mega_initial]
    hazard_10_70_unless_no_ground [of "[10, 70, 0, 0, 0, 0]" scanner_initial mega_initial]
  by (simp add: valid_samples_def insert_commute
      scanner_NUM_SENSORS_def mega_NUM_SENSORS_def)

section \<open>The variance\<close>

text \<open>
  Claim C3, as stated: when more than one sample is valid, the stored
  variance equals the sum of the squares of the valid samples divided by
  their number, minus the square of their mean. Five pulses of 1507
  microseconds give five equal samples of 13550249/524288 centimetres, for
  which that formula is 0; the binary32 computation of the sketches stores
  \<open>-1/8192\<close>.
\<close>

theorem variance_exact_formula_counterexample:
  "readSingleUltrasonic32 1507 = Num (13550249 / 524288) \<and>
   readTerrainArray_variance32 [1507, 1507, 1507, 1507, 1507] = Num (- (1 / 8192)) \<and>
   sum_list (map (\<lambda>d. d * d) (replicate 5 (13550249 / 524288 :: real))) / 5
     - (sum_list (replicate 5 (13550249 / 524288 :: real)) / 5)\<^sup>2 = 0"
proof -
  have x: "readSingleUltrasonic32 1507 = Num (13550249 / 524288)"
    by (simp add: readSingleUltrasonic32_def f32_of_int_def cx_steps)
  have v: "readTerrainArray_variance32 [1507, 1507, 1507, 1507, 1507] = Num (- (1 / 8192))"
    by (simp add: readTerrainArray_variance32_def terrainVariance32_def x
        scan_step32_def scan_init32_def
        scan_variance32_def fsub_def f32_of_int_def Let_def cx_steps)
  have e: "sum_list (map (\<lambda>d. d * d) (replicate 5 (13550249 / 524288 :: real))) / 5
     - (sum_list (replicate 5 (13550249 / 524288 :: real)) / 5)\<^sup>2 = 0"
    by (simp add: eval_nat_numeral power2_eq_square)
  from x v e show ?thesis by simp
qed

text \<open>
  Claim C3, amended. When at most one sample of the sweep is valid the stored
  variance is the number 0, not NaN: the \<^verbatim>\<open>else\<close> branch divides nothing,
  whereas on a sweep without a valid sample the skipped divisions would be
  \<open>0 / 0\<close>, that is NaN. When more than one sample is valid it is the sum of
  the squares of the valid samples divided by their number, minus the square
  of their mean, evaluated in binary32 arithmetic: every addition,
  multiplication and division and the subtraction is rounded, so the result
  is the population variance only up to rounding.
\<close>

theorem variance32_formula:
  "(let v = valid_samples32 sweep;
        n = f32_of_int (int (length v));
        total = foldl fadd (Num 0) v;
        squares = foldl fadd (Num 0) (map (\<lambda>d. fmul d d) v)
    in (length v \<le> 1 \<longrightarrow> terrainVariance32 sweep = Num 0) \<and>
       (length v > 1 \<longrightarrow>
          terrainVariance32 sweep =
            fsub (fdiv squares n) (fmul (fdiv total n) (fdiv total n))) \<and>
       (length v = 0 \<longrightarrow> fdiv squares n = NaN \<and> fdiv total n = NaN))"
  by (simp add: Let_def terrainVariance32_def scan_variance32_def validCount32_scan_loop
      sum32_scan_loop sumSq32_scan_loop scan_init32_def f32_of_int_def rnd_0)

theorem variance32_formula_witness:
  "valid_samples32 [Num 10, Num (- 1), Num 25, Num (- 1), Num (- 1)] = [Num 10, Num 25] \<and>
   terrainVariance32 [Num 10, Num (- 1), Num 25, Num (- 1), Num (- 1)] = Num (225 / 4) \<and>
   valid_samples32 [Num (- 1), Num (- 1), Num (- 1), Num (- 1), Num (- 1)] = [] \<and>
   terrainVariance32 [Num (- 1), Num (- 1), Num (- 1), Num (- 1), Num (- 1)] = Num 0 \<and>
   readTerrainArray_variance32 [0, 0, 0, 0, 0, 0] = Num 0 \<and>
   fdiv (Num 0) (f32_of_int 0) = NaN"
  using variance32_formula [of "[Num 10, Num (- 1), Num 25, Num (- 1), Num (- 1)]"]
    variance32_formula [of "[Num (- 1), Num (- 1), Num (- 1), Num (- 1), Num (- 1)]"]
    variance32_formula [of "map readSingleUltrasonic32 [0, 0, 0, 0, 0, 0]"]
  by (simp add: valid_samples32_def Let_def fsub_def f32_of_int_def rnd_0 wt_steps
      readTerrainArray_variance32_def readSingleUltrasonic32_def)

section \<open>Echo timeouts\<close>

text \<open>
  Claim C4. When \<^verbatim>\<open>pulseIn\<close> times out, that is returns the duration 0, the
  sample is the sentinel \<open>-1\<close>; any other duration gives
  \<open>duration * 0.0343 / 2.0\<close> centimetres. A timed-out channel anywhere in the
  sweep leaves every accumulator of the loop (sum, sum of squares, valid
  count, minimum, maximum) as it was, so the stored minimum, maximum and
  variance are those of the sweep without that channel.
\<close>

theorem timeout_is_sentinel_and_excluded:
  "readSingleUltrasonic 0 = - 1 \<and>
   (duration \<noteq> 0 \<longrightarrow>
      readSingleUltrasonic duration = real_of_int duration * 0.0343 / 2.0) \<and>
   scan_loop (map readSingleUltrasonic (before @ 0 # after)) scan_init =
     scan_loop (map readSingleUltrasonic (before @ after)) scan_init \<and>
   terrainMin (scanner_readTerrainArray (before @ 0 # after) g) =
     terrainMin (scanner_readTerrainArray (before @ after) g) \<and>
   terrainMax (scanner_readTerrainArray (before @ 0 # after) g) =
     terrainMax (scanner_readTerrainArray (before @ after) g) \<and>
   terrainVariance (scanner_readTerrainArray (before @ 0 # after) g) =
     terrainVariance (scanner_readTerrainArray (before @ after) g) \<and>
   terrainMin (mega_readTerrainArray (before @ 0 # after) t) =
     terrainMin (mega_readTerrainArray (before @ after) t) \<and>
   terrainMax (mega_readTerrainArray (before @ 0 # after) t) =
     terrainMax (mega_readTerrainArray (before @ after) t) \<and>
   terrainVariance (mega_readTerrainArray (before @ 0 # after) t) =
     terrainVariance (mega_readTerrainArray (before @ after) t)"
  by (simp add: scanner_readTerrainArray_def mega_readTerrainArray_def
      scanner_reduce_fields mega_reduce_fields scan_loop_skip_timeout
      del: map_append list.map)
     (simp add: readSingleUltrasonic_def)

theorem timeout_is_sentinel_and_excluded_witness:
  "(583 :: int) \<noteq> 0 \<and>
   readSingleUltrasonic 583 = 9.99845 \<and>
   sum_d (scan_loop (map readSingleUltrasonic [583, 0, 1000]) scan_init) = 27.14845 \<and>
   validCount (scan_loop (map readSingleUltrasonic [583, 0, 1000]) scan_init) = 2 \<and>
   minDist (scan_loop (map readSingleUltrasonic [583, 0, 1000]) scan_init) = 9.99845 \<and>
   maxDist (scan_loop (map readSingleUltrasonic [583, 0, 1000]) scan_init) = 17.15"
  using timeout_is_sentinel_and_excluded [of 583 "[583]" "[1000]" scanner_initial mega_initial]
  by (simp add: readSingleUltrasonic_def scan_step_def scan_init_def)

section \<open>Compass heading\<close>

text \<open>
  Claim C5. For every raw magnetometer sample the heading is
  \<open>atan2(magY, magX)\<close> in degrees, with 360 added when that is negative, and
  so lies in the interval from 0 (included) to 360 (excluded). The raw samples
  \<open>(1, 0)\<close>, \<open>(0, 1)\<close>, \<open>(-1, 0)\<close> and \<open>(0, -1)\<close> give the headings 0,
  90, 180 and 270. The ESP8266 firmware computes the same heading whenever
  the bus delivered the sample.
\<close>

theorem heading_normalised_0_360:
  "heading (mega_readQMC5883L rawX rawY rawZ t) =
     (if atan2 (real_of_int rawY) (real_of_int rawX) * 180.0 / pi < 0
      then atan2 (real_of_int rawY) (real_of_int rawX) * 180.0 / pi + 360
      else atan2 (real_of_int rawY) (real_of_int rawX) * 180.0 / pi) \<and>
   0 \<le> heading (mega_readQMC5883L rawX rawY rawZ t) \<and>
   heading (mega_readQMC5883L rawX rawY rawZ t) < 360 \<and>
   heading (mega_readQMC5883L 1 0 rawZ t) = 0 \<and>
   heading (mega_readQMC5883L 0 1 rawZ t) = 90 \<and>
   heading (mega_readQMC5883L (- 1) 0 rawZ t) = 180 \<and>
   heading (mega_readQMC5883L 0 (- 1) rawZ t) = 270 \<and>
   heading (esp_readQMC5883L 6 rawX rawY rawZ t) =
     heading (mega_readQMC5883L rawX rawY rawZ t)"
proof -
  have "heading (esp_readQMC5883L 6 rawX rawY rawZ t) =
     heading (mega_readQMC5883L rawX rawY rawZ t)"
    by (simp only: esp_heading_eq mega_heading_eq)
  with mega_heading_eq [of rawX rawY rawZ t] mega_heading_range [of rawX rawY rawZ t]
    heading_cardinal [of rawZ t]
  show ?thesis by blast
qed

theorem heading_normalised_0_360_witness:
  "heading (mega_readQMC5883L 0 (- 1) 5 mega_initial) = 270 \<and>
   heading (esp_readQMC5883L 6 0 (- 1) 5 mega_initial) = 270 \<and>
   0 \<le> heading (mega_readQMC5883L 3 (- 4) 5 mega_initial) \<and>
   heading (mega_readQMC5883L 3 (- 4) 5 mega_initial) < 360"
  using heading_normalised_0_360 [of 0 "- 1" 5 mega_initial]
    heading_normalised_0_360 [of 3 "- 4" 5 mega_initial]
  by simp

section \<open>Roll and pitch\<close>

text \<open>
  Claim C6. For every raw accelerometer sample, scaled to g by 16384, the
  roll is \<open>atan2(accelY, accelZ)\<close> in degrees and the pitch is
  \<open>atan2(-accelX, sqrt(accelY\<^sup>2 + accelZ\<^sup>2))\<close> in degrees. The pitch lies
  between -90 and 90 degrees. Both depend on the sample alone, not on the
  earlier contents of the structure: nothing is filtered or calibrated. The
  level sample \<open>accelX = 0, accelY = 0, accelZ = 1\<close> gives roll 0 and pitch 0.
\<close>

theorem roll_pitch_from_accel:
  "(let r = readMPU6050 rawX rawY rawZ t in
      accelX r = real_of_int rawX / 16384 \<and>
      accelY r = real_of_int rawY / 16384 \<and>
      accelZ r = real_of_int rawZ / 16384 \<and>
      roll r = atan2 (accelY r) (accelZ r) * 180 / pi \<and>
      pitch r = atan2 (- accelX r) (sqrt ((accelY r)\<^sup>2 + (accelZ r)\<^sup>2)) * 180 / pi \<and>
      - 90 \<le> pitch r \<and> pitch r \<le> 90 \<and>
      roll r = roll (readMPU6050 rawX rawY rawZ t') \<and>
      pitch r = pitch (readMPU6050 rawX rawY rawZ t')) \<and>
   (let r = readMPU6050 0 0 16384 t in
      accelX r = 0 \<and> accelY r = 0 \<and> accelZ r = 1 \<and> roll r = 0 \<and> pitch r = 0)"
  using pitch_range [of rawX rawY rawZ t] level_orientation [of t]
  by (simp add: Let_def readMPU6050_fields power2_eq_square)

theorem roll_pitch_from_accel_witness:
  "accelX (readMPU6050 16384 0 0 mega_initial) = 1 \<and>
   pitch (readMPU6050 16384 0 0 mega_initial) = - 90 \<and>
   pitch (readMPU6050 (- 16384) 0 0 mega_initial) = 90 \<and>
   roll (readMPU6050 0 0 16384 mega_initial) = 0 \<and>
   pitch (readMPU6050 0 0 16384 mega_initial) = 0"
  using roll_pitch_from_accel [of 16384 0 0 mega_initial mega_initial]
    roll_pitch_from_accel [of "- 16384" 0 0 mega_initial mega_initial]
  by (simp add: Let_def atan2_def)

section \<open>Totality of the classifier\<close>

text \<open>
  Claim C7. For every sweep, whatever mixture of valid and invalid samples
  it holds, and from every earlier state, the reduction returns with a status
  that is one of the classifications: one of the five status strings in
  \<^verbatim>\<open>terrain_scanner.ino\<close>, one of four of them in \<^verbatim>\<open>cansat_mega.ino\<close>, and
  never the initial \<^verbatim>\<open>"INIT"\<close>.
\<close>

theorem classifier_total:
  "(\<exists>c. classification_of (terrainStatus (scanner_reduce sweep g)) = Some c) \<and>
   (\<exists>c. classification_of (terrainStatus (mega_reduce sweep t)) = Some c) \<and>
   terrainStatus (scanner_reduce sweep g) \<in>
     {''NO_GROUND'', ''HAZARD!'', ''UNEVEN'', ''FLAT-SAFE'', ''NO_DATA''} \<and>
   terrainStatus (mega_reduce sweep t) \<in>
     {''NO GROUND'', ''HAZARD!'', ''UNEVEN'', ''FLAT-SAFE''} \<and>
   terrainStatus (scanner_reduce sweep g) \<noteq> ''INIT'' \<and>
   terrainStatus (mega_reduce sweep t) \<noteq> ''INIT''"
proof -
  have s: "terrainStatus (scanner_reduce sweep g) \<in>
     {''NO_GROUND'', ''HAZARD!'', ''UNEVEN'', ''FLAT-SAFE'', ''NO_DATA''}"
    unfolding scanner_reduce_def Let_def by (rule scanner_status_cases)
  have m: "terrainStatus (mega_reduce sweep t) \<in>
     {''NO GROUND'', ''HAZARD!'', ''UNEVEN'', ''FLAT-SAFE''}"
    unfolding mega_reduce_def Let_def by (rule mega_status_cases)
  from s have "\<exists>c. classification_of (terrainStatus (scanner_reduce sweep g)) = Some c"
    by (auto simp add: classification_of_def)
  moreover from m have "\<exists>c. classification_of (terrainStatus (mega_reduce sweep t)) = Some c"
    by (auto simp add: classification_of_def)
  moreover from s have "terrainStatus (scanner_reduce sweep g) \<noteq> ''INIT''"
    by auto
  moreover from m have "terrainStatus (mega_reduce sweep t) \<noteq> ''INIT''"
    by auto
  ultimately show ?thesis using s m by blast
qed

theorem classifier_total_witness:
  "classification_of (terrainStatus (scanner_reduce [- 1, - 1, 12, - 1, 11] scanner_initial)) =
     Some NO_GROUND \<and>
   classification_of (terrainStatus (mega_reduce [10, 11, 12, 13, 11, 80] mega_initial)) =
     Some HAZARD"
  using classifier_total [of "[- 1, - 1, 12, - 1, 11]" scanner_initial mega_initial]
    classifier_total [of "[10, 11, 12, 13, 11, 80]" scanner_initial mega_initial]
  by (simp add: scanner_reduce_def scanner_analyzeTerrain_def
      mega_reduce_def mega_analyzeTerrain_def scan_step_def scan_init_def
      scanner_NUM_SENSORS_def classification_of_def Let_def)

section \<open>Sequential measurement of the channels\<close>

text \<open>
  Claim C8. Within a sweep the channels are measured one after the other in
  the order of \<^verbatim>\<open>echoPins\<close>, each once: the log of the sweep is ordered in
  time, the returns of \<^verbatim>\<open>pulseIn\<close> name the pins in index order, and there is
  one trigger pulse per channel. The measurement of channel \<open>k\<close> returns after
  its own trigger pulse, and the trigger pulse of channel \<open>k + 1\<close> comes no
  earlier than 30000 microseconds, the settling delay, after that return,
  whether the measurement ended with an echo or with the timeout.
\<close>

theorem channels_sequential_with_settling:
  "(let lg = hw_log (snd (scanner_readTerrainArray_hw echo \<lparr>micros = t0, hw_log = []\<rparr> g)) in
      map snd (measured lg) = scanner_echoPins \<and>
      length (triggered scanner_TRIG_PIN lg) = length scanner_echoPins \<and>
      sorted (map fst lg) \<and>
      (\<forall>k. k < length scanner_echoPins \<longrightarrow>
         triggered scanner_TRIG_PIN lg ! k + 10 + snd (echo (scanner_echoPins ! k))
           = fst (measured lg ! k)) \<and>
      (\<forall>k. k + 1 < length scanner_echoPins \<longrightarrow>
         fst (measured lg ! k) + 30000 \<le> triggered scanner_TRIG_PIN lg ! (k + 1))) \<and>
   (let lg = hw_log (snd (mega_readTerrainArray_hw echo \<lparr>micros = t0, hw_log = []\<rparr> t)) in
      map snd (measured lg) = mega_echoPins \<and>
      length (triggered mega_TRIG_PIN lg) = length mega_echoPins \<and>
      sorted (map fst lg) \<and>
      (\<forall>k. k < length mega_echoPins \<longrightarrow>
         triggered mega_TRIG_PIN lg ! k + 10 + snd (echo (mega_echoPins ! k))
           = fst (measured lg ! k)) \<and>
      (\<forall>k. k + 1 < length mega_echoPins \<longrightarrow>
         fst (measured lg ! k) + 30000 \<le> triggered mega_TRIG_PIN lg ! (k + 1)))"
  unfolding readTerrainArray_hw_world
  using hw_sweep_sequential [of scanner_TRIG_PIN echo scanner_echoPins t0]
    hw_sweep_sequential [of mega_TRIG_PIN echo mega_echoPins t0]
  by (rule conjI)

theorem channels_sequential_with_settling_witness:
  "measured (hw_log (snd (scanner_readTerrainArray_hw example_echo
       \<lparr>micros = 0, hw_log = []\<rparr> scanner_initial))) =
     [(1212, 3), (61224, 4), (92736, 5), (124248, 6), (155760, 7)] \<and>
   triggered scanner_TRIG_PIN (hw_log (snd (scanner_readTerrainArray_hw example_echo
       \<lparr>micros = 0, hw_log = []\<rparr> scanner_initial))) =
     [2, 31214, 91226, 122738, 154250] \<and>
   (1212 :: nat) + 30000 \<le> 31214 \<and> (61224 :: nat) + 30000 \<le> 91226"
  using channels_sequential_with_settling [of example_echo 0 scanner_initial mega_initial]
  by (simp add: readTerrainArray_hw_world example_sweep_log) (simp add: scanner_TRIG_PIN_def)

section \<open>The classification NO\_DATA\<close>

text \<open>
  Claim C9. A sample that the driver returns for a pulse width \<open>duration \<ge> 0\<close>
  is the sentinel \<open>-1\<close> or positive. No sweep makes either sketch write
  \<open>NO_DATA\<close>: \<^verbatim>\<open>cansat_mega.ino\<close> has no such branch, and in
  \<^verbatim>\<open>terrain_scanner.ino\<close> a sweep without a valid sample has all its 5
  samples invalid, so the first rule gives \<open>NO_GROUND\<close>; likewise for the 6
  samples of \<^verbatim>\<open>cansat_mega.ino\<close>.
\<close>

theorem no_data_unreachable:
  "(0 \<le> duration \<longrightarrow>
      readSingleUltrasonic duration = - 1 \<or> 0 < readSingleUltrasonic duration) \<and>
   classification_of (terrainStatus (scanner_readTerrainArray durations g)) \<noteq> Some NO_DATA \<and>
   classification_of (terrainStatus (mega_readTerrainArray durations t)) \<noteq> Some NO_DATA \<and>
   terrainStatus (mega_reduce sweep t) \<noteq> ''NO_DATA'' \<and>
   (valid_samples (map readSingleUltrasonic durations) = [] \<longrightarrow>
      (int (length durations) = scanner_NUM_SENSORS \<longrightarrow>
         int (length (invalid_samples (map readSingleUltrasonic durations))) = scanner_NUM_SENSORS \<and>
         classification_of (terrainStatus (scanner_readTerrainArray durations g)) =
           Some NO_GROUND) \<and>
      (int (length durations) = mega_NUM_SENSORS \<longrightarrow>
         int (length (invalid_samples (map readSingleUltrasonic durations))) = mega_NUM_SENSORS \<and>
         classification_of (terrainStatus (mega_readTerrainArray durations t)) =
           Some NO_GROUND))"
proof -
  have zero: "0 \<notin> set (map readSingleUltrasonic durations)"
    using readSingleUltrasonic_nonzero by (auto simp add: image_iff)
  have a: "0 \<le> duration \<longrightarrow>
      readSingleUltrasonic duration = - 1 \<or> 0 < readSingleUltrasonic duration"
    using readSingleUltrasonic_sentinel_or_positive by blast
  have b: "classification_of (terrainStatus (scanner_readTerrainArray durations g)) \<noteq> Some NO_DATA"
    by (simp add: classification_NO_DATA_iff scanner_readTerrainArray_def scanner_never_NO_DATA)
  have c: "classification_of (terrainStatus (mega_readTerrainArray durations t)) \<noteq> Some NO_DATA"
    by (simp add: classification_NO_DATA_iff mega_readTerrainArray_def mega_never_NO_DATA)
  have d: "terrainStatus (mega_reduce sweep t) \<noteq> ''NO_DATA''"
    by (rule mega_never_NO_DATA)
  have e: "valid_samples (map readSingleUltrasonic durations) = [] \<longrightarrow>
      (int (length durations) = scanner_NUM_SENSORS \<longrightarrow>
         int (length (invalid_samples (map readSingleUltrasonic durations))) = scanner_NUM_SENSORS \<and>
         classification_of (terrainStatus (scanner_readTerrainArray durations g)) =
           Some NO_GROUND) \<and>
      (int (length durations) = mega_NUM_SENSORS \<longrightarrow>
         int (length (invalid_samples (map readSingleUltrasonic durations))) = mega_NUM_SENSORS \<and>
         classification_of (terrainStatus (mega_readTerrainArray durations t)) =
           Some NO_GROUND)"
  proof (intro impI conjI)
    assume v: "valid_samples (map readSingleUltrasonic durations) = []"
      and l: "int (length durations) = scanner_NUM_SENSORS"
    show "int (length (invalid_samples (map readSingleUltrasonic durations))) = scanner_NUM_SENSORS"
      using no_valid_all_invalid [OF v] l by simp
    show "classification_of (terrainStatus (scanner_readTerrainArray durations g)) =
           Some NO_GROUND"
      by (simp add: scanner_readTerrainArray_def scanner_no_valid_NO_GROUND [OF v]
          classification_of_def)
  next
    assume v: "valid_samples (map readSingleUltrasonic durations) = []"
      and l: "int (length durations) = mega_NUM_SENSORS"
    show "int (length (invalid_samples (map readSingleUltrasonic durations))) = mega_NUM_SENSORS"
      using no_valid_all_invalid [OF v] l by simp
    have "int (length (map readSingleUltrasonic durations)) = mega_NUM_SENSORS" using l by simp
    from mega_no_valid_NO_GROUND [OF v zero this]
    show "classification_of (terrainStatus (mega_readTerrainArray durations t)) =
           Some NO_GROUND"
      by (simp add: mega_readTerrainArray_def classification_of_def)
  qed
  from a b c d e show ?thesis by blast
qed

theorem no_data_unreachable_witness:
  "(0::int) \<le> 583 \<and> 0 < readSingleUltrasonic 583 \<and>
   readSingleUltrasonic 0 = - 1 \<and>
   valid_samples (map readSingleUltrasonic [0, 0, 0, 0, 0]) = [] \<and>
   classification_of (terrainStatus (scanner_readTerrainArray [0, 0, 0, 0, 0] scanner_initial)) =
     Some NO_GROUND \<and>
   valid_samples (map readSingleUltrasonic [0, 0, 0, 0, 0, 0]) = [] \<and>
   classification_of (terrainStatus (mega_readTerrainArray [0, 0, 0, 0, 0, 0] mega_initial)) =
     Some NO_GROUND"
  using no_data_unreachable [of 583 "[0, 0, 0, 0, 0]" scanner_initial mega_initial "[]"]
    no_data_unreachable [of 0 "[0, 0, 0, 0, 0, 0]" scanner_initial mega_initial "[]"]
  by (simp add: valid_samples_def readSingleUltrasonic_def
      scanner_NUM_SENSORS_def mega_NUM_SENSORS_def)

section \<open>Sweeps without a valid sample\<close>

text \<open>
  Claim C10. When no sample of the sweep is valid (every channel timed out),
  \<^verbatim>\<open>cansat_mega.ino\<close> stores the untouched initial values of the loop:
  \<open>terrainMin = 9999\<close> and \<open>terrainMax = 0\<close>, so the minimum is above the
  maximum and their difference, the range, is negative.
  \<^verbatim>\<open>terrain_scanner.ino\<close> stores \<open>terrainMin = terrainMax = 0\<close> for such a
  sweep.
\<close>

theorem mega_all_timeouts_min_above_max:
  assumes "valid_samples sweep = []"
  shows "terrainMin (mega_reduce sweep t) = 9999 \<and>
         terrainMax (mega_reduce sweep t) = 0 \<and>
         terrainMax (mega_reduce sweep t) - terrainMin (mega_reduce sweep t) < 0 \<and>
         terrainMin (scanner_reduce sweep g) = 0 \<and>
         terrainMax (scanner_reduce sweep g) = 0"
  using assms
  by (simp add: mega_reduce_fields scanner_reduce_fields scan_loop_no_valid scan_init_def)

theorem mega_all_timeouts_min_above_max_witness:
  "valid_samples (map readSingleUltrasonic [0, 0, 0, 0, 0, 0]) = [] \<and>
   terrainMin (mega_readTerrainArray [0, 0, 0, 0, 0, 0] mega_initial) = 9999 \<and>
   terrainMax (mega_readTerrainArray [0, 0, 0, 0, 0, 0] mega_initial) = 0 \<and>
   terrainMin (scanner_readTerrainArray [0, 0, 0, 0, 0] scanner_initial) = 0 \<and>
   terrainMax (scanner_readTerrainArray [0, 0, 0, 0, 0] scanner_initial) = 0"
proof -
  have six: "valid_samples (map readSingleUltrasonic [0, 0, 0, 0, 0, 0]) = []"
    by (simp add: valid_samples_def readSingleUltrasonic_def)
  have five: "valid_samples (map readSingleUltrasonic [0, 0, 0, 0, 0]) = []"
    by (simp add: valid_samples_def readSingleUltrasonic_def)
  show ?thesis
    using six
      mega_all_timeouts_min_above_max [OF six, of mega_initial scanner_initial]
      mega_all_timeouts_min_above_max [OF five, of mega_initial scanner_initial]
    by (simp add: mega_readTerrainArray_def scanner_readTerrainArray_def)
qed

end
